theory Spec2Isabelle
  imports Complex_Main "HOL-Library.Multiset" "HOL-Library.Char_ord" "HOL-Library.List_Lexorder"
begin

section \<open>Text\<close>

text \<open>
  Python text is modelled as \<^typ>\<open>string\<close>, the list of the bytes of its UTF-8 encoding.
  Concatenation, joining, comparison and the removal of an ASCII character agree with
  Python's on every text. \<open>str.strip\<close>, \<open>str.upper\<close> and the regular expression class
  \<open>\d\<close> are modelled on their ASCII range: the bytes of a code point beyond ASCII
  are neither white space, nor a letter with an upper case, nor a digit.
\<close>

definition nl :: string where
  "nl = [CHR 0x0A]"

text \<open>The ASCII characters that \<open>str.isspace\<close> accepts: TAB, LF, VT, FF, CR, FS, GS, RS, US, space.\<close>

definition is_space :: "char \<Rightarrow> bool" where
  "is_space c = (c \<in> set [CHR 0x09, CHR 0x0A, CHR 0x0B, CHR 0x0C, CHR 0x0D,
                               CHR 0x1C, CHR 0x1D, CHR 0x1E, CHR 0x1F, CHR 0x20])"

definition lstrip :: "string \<Rightarrow> string" where
  "lstrip s = dropWhile is_space s"

definition rstrip :: "string \<Rightarrow> string" where
  "rstrip s = rev (dropWhile is_space (rev s))"

definition strip :: "string \<Rightarrow> string" where
  "strip s = rstrip (lstrip s)"

definition upper_char :: "char \<Rightarrow> char" where
  "upper_char c =
     (case map_of (zip ''abcdefghijklmnopqrstuvwxyz'' ''ABCDEFGHIJKLMNOPQRSTUVWXYZ'') c of
        Some u \<Rightarrow> u
      | None \<Rightarrow> c)"

definition upper :: "string \<Rightarrow> string" where
  "upper s = map upper_char s"

text \<open>\<open>s.replace(c, "")\<close> for a single character \<open>c\<close>.\<close>

definition remove_char :: "char \<Rightarrow> string \<Rightarrow> string" where
  "remove_char c s = filter (\<lambda>x. x \<noteq> c) s"

text \<open>\<open>sep.join(parts)\<close> on a list of texts.\<close>

fun join :: "string \<Rightarrow> string list \<Rightarrow> string" where
  "join sep [] = []"
| "join sep [x] = x"
| "join sep (x # y # ys) = x @ sep @ join sep (y # ys)"

text \<open>\<open>needle in haystack\<close> on two texts.\<close>

fun is_prefix :: "string \<Rightarrow> string \<Rightarrow> bool" where
  "is_prefix [] s = True"
| "is_prefix (c # cs) [] = False"
| "is_prefix (c # cs) (d # ds) = (c = d \<and> is_prefix cs ds)"

fun is_substring :: "string \<Rightarrow> string \<Rightarrow> bool" where
  "is_substring needle [] = (needle = [])"
| "is_substring needle (c # cs) = (is_prefix needle (c # cs) \<or> is_substring needle cs)"

text \<open>\<open>str(n)\<close> for an integer.\<close>

definition digit_char :: "nat \<Rightarrow> char" where
  "digit_char d = ''0123456789'' ! (d mod 10)"

fun str_nat :: "nat \<Rightarrow> string" where
  "str_nat n = (if n < 10 then [digit_char n] else str_nat (n div 10) @ [digit_char (n mod 10)])"

declare str_nat.simps [simp del]

definition str_int :: "int \<Rightarrow> string" where
  "str_int i = (if i < 0 then CHR ''-'' # str_nat (nat (- i)) else str_nat (nat i))"

section \<open>Values of a parsed payload\<close>

text \<open>
  \<open>json.loads\<close> returns \<open>None\<close>, a \<open>bool\<close>, an \<open>int\<close>, a \<open>float\<close>, a \<open>str\<close>, a \<open>list\<close>
  or a \<open>dict\<close> with text keys. A dict is an association list in insertion order, read
  with \<^const>\<open>map_of\<close>; the parser never returns one with a repeated key. A float is kept as
  its value together with the text that \<open>repr\<close> prints for it; rounding to a double and
  the shortest-digits printing are outside the model.
\<close>

datatype pyfloat = Finite rat | PosInf | NegInf | NaN

datatype json =
    JNull
  | JBool bool
  | JInt int
  | JFloat pyfloat string
  | JStr string
  | JArr "json list"
  | JObj "(string \<times> json) list"

datatype pyerr =
    KeyError json
  | TypeError
  | AttributeError
  | IndexError
  | ValueError string

definition bnd :: "pyerr + 'a \<Rightarrow> ('a \<Rightarrow> pyerr + 'b) \<Rightarrow> pyerr + 'b" where
  "bnd m f = (case m of Inl e \<Rightarrow> Inl e | Inr x \<Rightarrow> f x)"

text \<open>A loop that builds a list and stops at the first exception.\<close>

fun map_res :: "('a \<Rightarrow> pyerr + 'b) \<Rightarrow> 'a list \<Rightarrow> pyerr + 'b list" where
  "map_res f [] = Inr []"
| "map_res f (x # xs) = bnd (f x) (\<lambda>y. bnd (map_res f xs) (\<lambda>ys. Inr (y # ys)))"

text \<open>Truth value of a value, as \<open>if x\<close>, \<open>x or y\<close> take it.\<close>

fun truthy :: "json \<Rightarrow> bool" where
  "truthy JNull = False"
| "truthy (JBool b) = b"
| "truthy (JInt i) = (i \<noteq> 0)"
| "truthy (JFloat f r) = (f \<noteq> Finite 0)"
| "truthy (JStr s) = (s \<noteq> [])"
| "truthy (JArr xs) = (xs \<noteq> [])"
| "truthy (JObj kvs) = (kvs \<noteq> [])"

text \<open>\<open>repr\<close> of a text: the quote is \<open>"\<close> when the text has a \<open>'\<close> and no \<open>"\<close>.\<close>

definition hex_digit :: "nat \<Rightarrow> char" where
  "hex_digit d = ''0123456789abcdef'' ! (d mod 16)"

definition repr_char :: "char \<Rightarrow> char \<Rightarrow> string" where
  "repr_char q c =
     (if c = q \<or> c = CHR 0x5C then [CHR 0x5C, c]
      else if c = CHR 0x09 then [CHR 0x5C, CHR ''t'']
      else if c = CHR 0x0A then [CHR 0x5C, CHR ''n'']
      else if c = CHR 0x0D then [CHR 0x5C, CHR ''r'']
      else if (of_char c :: nat) < 32 \<or> c = CHR 0x7F
        then [CHR 0x5C, CHR ''x'', hex_digit (of_char c div 16), hex_digit (of_char c mod 16)]
      else [c])"

definition repr_str :: "string \<Rightarrow> string" where
  "repr_str s =
     (let q = (if CHR 0x27 \<in> set s \<and> CHR 0x22 \<notin> set s then CHR 0x22 else CHR 0x27)
      in q # concat (map (repr_char q) s) @ [q])"

fun py_repr :: "json \<Rightarrow> string" where
  "py_repr JNull = ''None''"
| "py_repr (JBool b) = (if b then ''True'' else ''False'')"
| "py_repr (JInt i) = str_int i"
| "py_repr (JFloat f r) = r"
| "py_repr (JStr s) = repr_str s"
| "py_repr (JArr xs) = ''['' @ join '', '' (map py_repr xs) @ '']''"
| "py_repr (JObj kvs) =
     ''{'' @ join '', '' (map (\<lambda>kv. repr_str (fst kv) @ '': '' @ py_repr (snd kv)) kvs) @ ''}''"

text \<open>\<open>str(x)\<close>, also what an f-string field prints.\<close>

definition py_str :: "json \<Rightarrow> string" where
  "py_str x = (case x of JStr s \<Rightarrow> s | _ \<Rightarrow> py_repr x)"

text \<open>\<open>d[k]\<close> with a text key \<open>k\<close>.\<close>

definition getitem :: "json \<Rightarrow> string \<Rightarrow> pyerr + json" where
  "getitem d k =
     (case d of
        JObj kvs \<Rightarrow> (case map_of kvs k of None \<Rightarrow> Inl (KeyError (JStr k)) | Some v \<Rightarrow> Inr v)
      | _ \<Rightarrow> Inl TypeError)"

text \<open>\<open>d.get(k, default)\<close>.\<close>

definition get_default :: "json \<Rightarrow> string \<Rightarrow> json \<Rightarrow> pyerr + json" where
  "get_default d k dflt =
     (case d of
        JObj kvs \<Rightarrow> (case map_of kvs k of None \<Rightarrow> Inr dflt | Some v \<Rightarrow> Inr v)
      | _ \<Rightarrow> Inl AttributeError)"

text \<open>\<open>k in d\<close> with a text \<open>k\<close>: a key of a dict, an item of a list, a part of a text.\<close>

definition contains_key :: "string \<Rightarrow> json \<Rightarrow> pyerr + bool" where
  "contains_key k d =
     (case d of
        JObj kvs \<Rightarrow> Inr (map_of kvs k \<noteq> None)
      | JArr xs \<Rightarrow> Inr (JStr k \<in> set xs)
      | JStr s \<Rightarrow> Inr (is_substring k s)
      | _ \<Rightarrow> Inl TypeError)"

text \<open>The items a \<open>for\<close> loop visits: those of a list, the keys of a dict, the characters of a text.\<close>

definition py_iter :: "json \<Rightarrow> pyerr + json list" where
  "py_iter x =
     (case x of
        JArr xs \<Rightarrow> Inr xs
      | JObj kvs \<Rightarrow> Inr (map (\<lambda>kv. JStr (fst kv)) kvs)
      | JStr s \<Rightarrow> Inr (map (\<lambda>c. JStr [c]) s)
      | _ \<Rightarrow> Inl TypeError)"

text \<open>\<open>sep.join(xs)\<close> on values: every item has to be a text.\<close>

definition the_str :: "json \<Rightarrow> pyerr + string" where
  "the_str x = (case x of JStr s \<Rightarrow> Inr s | _ \<Rightarrow> Inl TypeError)"

definition join_values :: "string \<Rightarrow> json list \<Rightarrow> pyerr + string" where
  "join_values sep xs = bnd (map_res the_str xs) (\<lambda>ss. Inr (join sep ss))"

definition join_iter :: "string \<Rightarrow> json \<Rightarrow> pyerr + string" where
  "join_iter sep x = bnd (py_iter x) (join_values sep)"

section \<open>Display tables\<close>

definition STATUS_EMOJI :: "(string \<times> string) list" where
  "STATUS_EMOJI =
     [(''OK'', [CHR 0xE2, CHR 0x9C, CHR 0x85]),
      (''ATTN'', [CHR 0xE2, CHR 0x9A, CHR 0xA0, CHR 0xEF, CHR 0xB8, CHR 0x8F]),
      (''FAIL'', [CHR 0xE2, CHR 0x9D, CHR 0x8C]),
      (''TBD'', ''TBD''),
      (''FYI'', ''FYI'')]"

text \<open>\<open>STATUS_EMOJI[x]\<close>: a list or a dict cannot be hashed, any other key may be absent.\<close>

definition status_emoji :: "json \<Rightarrow> pyerr + json" where
  "status_emoji x =
     (case x of
        JStr s \<Rightarrow> (case map_of STATUS_EMOJI s of None \<Rightarrow> Inl (KeyError x) | Some e \<Rightarrow> Inr (JStr e))
      | JArr xs \<Rightarrow> Inl TypeError
      | JObj kvs \<Rightarrow> Inl TypeError
      | _ \<Rightarrow> Inl (KeyError x))"

definition flag_USA :: string where
  "flag_USA = [CHR 0xF0, CHR 0x9F, CHR 0x87, CHR 0xBA, CHR 0xF0, CHR 0x9F, CHR 0x87, CHR 0xB8]"

definition flag_EU :: string where
  "flag_EU = [CHR 0xF0, CHR 0x9F, CHR 0x87, CHR 0xAA, CHR 0xF0, CHR 0x9F, CHR 0x87, CHR 0xBA]"

definition flag_UK :: string where
  "flag_UK = [CHR 0xF0, CHR 0x9F, CHR 0x87, CHR 0xAC, CHR 0xF0, CHR 0x9F, CHR 0x87, CHR 0xA7]"

definition flag_CA :: string where
  "flag_CA = [CHR 0xF0, CHR 0x9F, CHR 0x87, CHR 0xA8, CHR 0xF0, CHR 0x9F, CHR 0x87, CHR 0xA6]"

definition globe :: string where
  "globe = [CHR 0xF0, CHR 0x9F, CHR 0x8C, CHR 0x90]"

definition REGION_FLAGS :: "(string \<times> string) list" where
  "REGION_FLAGS =
     [(''USA'', flag_USA), (''EU'', flag_EU), (''UK'', flag_UK), (''CA'', flag_CA),
      (''OTHER'', globe)]"

definition REGION_ALIASES :: "(string \<times> string) list" where
  "REGION_ALIASES =
     [(''US'', ''USA''),
      (''UNITED STATES'', ''USA''),
      (''EUROPEAN UNION'', ''EU''),
      (''UNITED KINGDOM'', ''UK''),
      (''CANADA'', ''CA'')]"

text \<open>\<open>table.get(k, dflt)\<close> on a table of texts.\<close>

definition table_get :: "(string \<times> string) list \<Rightarrow> string \<Rightarrow> string \<Rightarrow> string" where
  "table_get table k dflt = (case map_of table k of None \<Rightarrow> dflt | Some v \<Rightarrow> v)"

text \<open>The two assignments to \<open>key\<close> in the loop of \<open>_format_regions_with_flags\<close>.\<close>

definition region_key :: "string \<Rightarrow> string" where
  "region_key s =
     (let key = remove_char CHR ''.'' (upper (strip s))
      in table_get REGION_ALIASES key key)"

text \<open>\<open>(r or "")\<close> followed by \<open>.strip()\<close>: only a text has that method.\<close>

definition or_empty :: "json \<Rightarrow> pyerr + string" where
  "or_empty r =
     (if truthy r then (case r of JStr s \<Rightarrow> Inr s | _ \<Rightarrow> Inl AttributeError) else Inr [])"

text \<open>One round of the loop: the text appended to \<open>parts\<close>.\<close>

definition format_region :: "json \<Rightarrow> pyerr + string" where
  "format_region r =
     bnd (or_empty r) (\<lambda>s.
       let key = region_key s in
       (case map_of REGION_FLAGS ''OTHER'' of
          None \<Rightarrow> Inl (KeyError (JStr ''OTHER''))
        | Some other \<Rightarrow>
            let flag = table_get REGION_FLAGS key other
            in Inr (strip (flag @ '' '' @ py_str r))))"

text \<open>\<open>_format_regions_with_flags\<close>.\<close>

definition format_regions_with_flags :: "json \<Rightarrow> pyerr + string" where
  "format_regions_with_flags regions =
     bnd (py_iter (if truthy regions then regions else JArr [])) (\<lambda>rs.
     bnd (map_res format_region rs) (\<lambda>parts.
       Inr (join '', '' parts)))"

section \<open>The table renderer\<close>

text \<open>
  \<open>_print_table(header, rows)\<close>: \<open>header\<close> is the title, \<open>rows[0]\<close> the column names, which
  \<open>join\<close> wants as texts, and \<open>rows[1:]\<close> the data rows, whose cells go through \<open>str\<close>.
\<close>

definition print_table :: "string \<Rightarrow> json list list \<Rightarrow> pyerr + string" where
  "print_table header rows =
     (case rows of
        [] \<Rightarrow> Inl IndexError
      | cols # data \<Rightarrow>
          bnd (join_values '' | '' cols) (\<lambda>names.
            Inr (join nl
              ([header, [], ''| '' @ names @ '' |'',
                ''|'' @ join ''|'' (replicate (length cols) ''---'') @ ''|'']
               @ map (\<lambda>r. ''| '' @ join '' | '' (map py_str r) @ '' |'') data))))"


section \<open>The schema and its validator\<close>

text \<open>
  \<open>validate_payload\<close> hands the payload to \<open>Draft202012Validator(schema).iter_errors\<close> of the
  \<open>jsonschema\<close> package. The package is not part of the repository; the model below follows
  JSON Schema 2020-12 as that package evaluates it, for the keywords \<open>SCHEMA_JSON\<close> uses:
  every keyword of a schema object is evaluated in the order it is written and yields its
  own errors, a keyword whose instance is of another kind than it constrains yields none,
  and \<open>properties\<close>, \<open>items\<close>, \<open>allOf\<close> and \<open>$ref\<close> descend. The annotations \<open>$schema\<close>,
  \<open>$id\<close>, \<open>title\<close> and \<open>description\<close> have no validator and are left out; a \<open>$ref\<close> holds the
  definition under \<open>$defs\<close> that it names.
\<close>

subsection \<open>Patterns\<close>

text \<open>
  The four patterns of the schema are alternatives of the form \<open>^ ... $\<close> over single
  characters, \<open>\d\<close>, a character set, \<open>+\<close> and \<open>{n}\<close>. The package tests them with
  \<open>re.search\<close>, where \<open>$\<close> holds at the end of the text and before a last line feed.
\<close>

datatype atom = Lit char | Digit | OneOf string

datatype piece = One atom | Many1 atom | Exactly nat atom

type_synonym pattern = "piece list list"

fun atom_ok :: "atom \<Rightarrow> char \<Rightarrow> bool" where
  "atom_ok (Lit d) c = (c = d)"
| "atom_ok Digit c = (c \<in> set ''0123456789'')"
| "atom_ok (OneOf cs) c = (c \<in> set cs)"

fun match_seq :: "piece list \<Rightarrow> string \<Rightarrow> bool" where
  "match_seq [] s = (s = [] \<or> s = nl)"
| "match_seq (One a # ps) [] = False"
| "match_seq (One a # ps) (c # cs) = (atom_ok a c \<and> match_seq ps cs)"
| "match_seq (Many1 a # ps) [] = False"
| "match_seq (Many1 a # ps) (c # cs) =
     (atom_ok a c \<and> (match_seq (Many1 a # ps) cs \<or> match_seq ps cs))"
| "match_seq (Exactly 0 a # ps) s = match_seq ps s"
| "match_seq (Exactly (Suc n) a # ps) [] = False"
| "match_seq (Exactly (Suc n) a # ps) (c # cs) = (atom_ok a c \<and> match_seq (Exactly n a # ps) cs)"

definition re_search :: "pattern \<Rightarrow> string \<Rightarrow> bool" where
  "re_search alternatives s = (\<exists>ps \<in> set alternatives. match_seq ps s)"

subsection \<open>Schemas\<close>

datatype jtype = TObject | TArray | TString | TNumber | TInteger | TBoolean

datatype schema = Schema "keyword list"
and keyword =
    Type jtype
  | AdditionalProperties bool
  | Required "string list"
  | Properties "(string \<times> schema) list"
  | MinLength nat
  | Pattern pattern
  | Enum "string list"
  | Const string
  | MinItems nat
  | UniqueItems bool
  | Items schema
  | Contains schema
  | AllOf "schema list"
  | Minimum int
  | Maximum int
  | Ref schema

subsection \<open>Errors\<close>

text \<open>
  A segment of \<open>e.path\<close> is a property name or an array index. An error is kept as its path
  and what failed; the text of \<open>e.message\<close> is the package's own.
\<close>

datatype seg = Idx nat | Key string

datatype failure =
    NotOfType jtype
  | Unexpected "string list"
  | MissingProperty string
  | TooShortText nat
  | NoMatch pattern
  | NotInEnum "string list"
  | NotConst string
  | TooFewItems nat
  | NotUnique
  | NoItemMatches
  | BelowMinimum int
  | AboveMaximum int

datatype verror = VError (path: "seg list") (failure: failure)

definition under :: "seg \<Rightarrow> verror \<Rightarrow> verror" where
  "under sg e = VError (sg # path e) (failure e)"

subsection \<open>The type checker and the comparisons of the package\<close>

fun is_integral :: "pyfloat \<Rightarrow> bool" where
  "is_integral (Finite q) = (q = of_int \<lfloor>q\<rfloor>)"
| "is_integral f = False"

fun is_type :: "jtype \<Rightarrow> json \<Rightarrow> bool" where
  "is_type TObject v = (case v of JObj kvs \<Rightarrow> True | _ \<Rightarrow> False)"
| "is_type TArray v = (case v of JArr xs \<Rightarrow> True | _ \<Rightarrow> False)"
| "is_type TString v = (case v of JStr s \<Rightarrow> True | _ \<Rightarrow> False)"
| "is_type TBoolean v = (case v of JBool b \<Rightarrow> True | _ \<Rightarrow> False)"
| "is_type TNumber v = (case v of JInt i \<Rightarrow> True | JFloat f r \<Rightarrow> True | _ \<Rightarrow> False)"
| "is_type TInteger v = (case v of JInt i \<Rightarrow> True | JFloat f r \<Rightarrow> is_integral f | _ \<Rightarrow> False)"

text \<open>\<open>instance < bound\<close> and \<open>instance > bound\<close> on a number; every comparison with NaN is false.\<close>

fun number_below :: "json \<Rightarrow> int \<Rightarrow> bool" where
  "number_below (JInt i) b = (i < b)"
| "number_below (JFloat (Finite q) r) b = (q < of_int b)"
| "number_below (JFloat NegInf r) b = True"
| "number_below v b = False"

fun number_above :: "json \<Rightarrow> int \<Rightarrow> bool" where
  "number_above (JInt i) b = (i > b)"
| "number_above (JFloat (Finite q) r) b = (q > of_int b)"
| "number_above (JFloat PosInf r) b = True"
| "number_above v b = False"

text \<open>
  The package's \<open>equal\<close>: numbers by value, a bool only equal to a bool, lists item by
  item, dicts key by key.
\<close>

fun json_equal :: "json \<Rightarrow> json \<Rightarrow> bool"
and items_equal :: "json list \<Rightarrow> json list \<Rightarrow> bool"
and fields_equal :: "(string \<times> json) list \<Rightarrow> (string \<times> json) list \<Rightarrow> bool" where
  "json_equal JNull w = (w = JNull)"
| "json_equal (JBool a) w = (w = JBool a)"
| "json_equal (JStr a) w = (w = JStr a)"
| "json_equal (JInt i) w =
     (case w of JInt j \<Rightarrow> i = j | JFloat g r \<Rightarrow> g = Finite (of_int i) | _ \<Rightarrow> False)"
| "json_equal (JFloat f r) w =
     (case w of JInt j \<Rightarrow> f = Finite (of_int j) | JFloat g r' \<Rightarrow> f = g | _ \<Rightarrow> False)"
| "json_equal (JArr xs) w = (case w of JArr ys \<Rightarrow> items_equal xs ys | _ \<Rightarrow> False)"
| "json_equal (JObj kvs) w =
     (case w of
        JObj kws \<Rightarrow> set (map fst kvs) = set (map fst kws) \<and> fields_equal kvs kws
      | _ \<Rightarrow> False)"
| "items_equal [] ys = (ys = [])"
| "items_equal (x # xs) ys =
     (case ys of [] \<Rightarrow> False | y # ys' \<Rightarrow> json_equal x y \<and> items_equal xs ys')"
| "fields_equal [] kws = True"
| "fields_equal (kv # kvs) kws =
     ((case map_of kws (fst kv) of None \<Rightarrow> False | Some w \<Rightarrow> json_equal (snd kv) w)
      \<and> fields_equal kvs kws)"

text \<open>The package's \<open>uniq\<close>: no item is equal to an earlier one.\<close>

fun uniq :: "json list \<Rightarrow> bool" where
  "uniq [] = True"
| "uniq (x # xs) = ((\<forall>y \<in> set xs. \<not> json_equal x y) \<and> uniq xs)"

subsection \<open>Evaluation of the keywords\<close>

definition declared_properties :: "keyword list \<Rightarrow> string list" where
  "declared_properties ks =
     concat (map (\<lambda>k. case k of Properties ps \<Rightarrow> map fst ps | _ \<Rightarrow> []) ks)"

definition here :: "failure \<Rightarrow> verror list" where
  "here f = [VError [] f]"

fun iter_errors :: "schema \<Rightarrow> json \<Rightarrow> verror list"
and keyword_errors :: "string list \<Rightarrow> keyword \<Rightarrow> json \<Rightarrow> verror list" where
  "iter_errors (Schema ks) v =
     concat (map (\<lambda>k. keyword_errors (declared_properties ks) k v) ks)"
| "keyword_errors declared (Type t) v = (if is_type t v then [] else here (NotOfType t))"
| "keyword_errors declared (AdditionalProperties allowed) v =
     (case v of
        JObj kvs \<Rightarrow>
          (let extras = filter (\<lambda>k. k \<notin> set declared) (map fst kvs)
           in if \<not> allowed \<and> extras \<noteq> [] then here (Unexpected extras) else [])
      | _ \<Rightarrow> [])"
| "keyword_errors declared (Required names) v =
     (case v of
        JObj kvs \<Rightarrow> map (\<lambda>n. VError [] (MissingProperty n)) (filter (\<lambda>n. map_of kvs n = None) names)
      | _ \<Rightarrow> [])"
| "keyword_errors declared (Properties ps) v =
     (case v of
        JObj kvs \<Rightarrow>
          concat (map (\<lambda>p. case map_of kvs (fst p) of
                              None \<Rightarrow> []
                            | Some child \<Rightarrow> map (under (Key (fst p))) (iter_errors (snd p) child)) ps)
      | _ \<Rightarrow> [])"
| "keyword_errors declared (MinLength n) v =
     (case v of JStr s \<Rightarrow> (if length s < n then here (TooShortText n) else []) | _ \<Rightarrow> [])"
| "keyword_errors declared (Pattern p) v =
     (case v of JStr s \<Rightarrow> (if re_search p s then [] else here (NoMatch p)) | _ \<Rightarrow> [])"
| "keyword_errors declared (Enum allowed) v =
     (if \<exists>a \<in> set allowed. v = JStr a then [] else here (NotInEnum allowed))"
| "keyword_errors declared (Const c) v = (if v = JStr c then [] else here (NotConst c))"
| "keyword_errors declared (MinItems n) v =
     (case v of JArr xs \<Rightarrow> (if length xs < n then here (TooFewItems n) else []) | _ \<Rightarrow> [])"
| "keyword_errors declared (UniqueItems wanted) v =
     (case v of JArr xs \<Rightarrow> (if wanted \<and> \<not> uniq xs then here NotUnique else []) | _ \<Rightarrow> [])"
| "keyword_errors declared (Items sub) v =
     (case v of
        JArr xs \<Rightarrow>
          concat (map (\<lambda>i. map (under (Idx i)) (iter_errors sub (xs ! i))) [0 ..< length xs])
      | _ \<Rightarrow> [])"
| "keyword_errors declared (Contains sub) v =
     (case v of
        JArr xs \<Rightarrow> (if filter (\<lambda>x. iter_errors sub x = []) xs = [] then here NoItemMatches else [])
      | _ \<Rightarrow> [])"
| "keyword_errors declared (AllOf subs) v = concat (map (\<lambda>sub. iter_errors sub v) subs)"
| "keyword_errors declared (Minimum b) v = (if number_below v b then here (BelowMinimum b) else [])"
| "keyword_errors declared (Maximum b) v = (if number_above v b then here (AboveMaximum b) else [])"
| "keyword_errors declared (Ref target) v = iter_errors target v"


subsection \<open>\<open>SCHEMA_JSON\<close>\<close>

definition version_pattern :: pattern where
  "version_pattern =
     [[Many1 Digit, One (Lit CHR ''.''), Many1 Digit, One (Lit CHR ''.''), Many1 Digit]]"

definition due_date_pattern :: pattern where
  "due_date_pattern =
     [[One (Lit CHR ''T''), One (Lit CHR ''B''), One (Lit CHR ''D'')],
      [Exactly 4 Digit, One (Lit CHR ''-''), Exactly 2 Digit, One (Lit CHR ''-''), Exactly 2 Digit]]"

definition encoded_digits_pattern :: pattern where
  "encoded_digits_pattern = [[Many1 (OneOf ''0123456789X'')]]"

definition snapshot_id_pattern :: pattern where
  "snapshot_id_pattern = [[One (Lit CHR ''G''), One (Lit CHR ''-''), Exactly 3 Digit]]"

definition string_schema :: schema where
  "string_schema = Schema [Type TString]"

definition nonempty_string_schema :: schema where
  "nonempty_string_schema = Schema [Type TString, MinLength 1]"

definition boolean_schema :: schema where
  "boolean_schema = Schema [Type TBoolean]"

definition number_schema :: schema where
  "number_schema = Schema [Type TNumber, Minimum 0]"

definition integer_schema :: schema where
  "integer_schema = Schema [Type TInteger, Minimum 0]"

definition percent_schema :: schema where
  "percent_schema = Schema [Type TNumber, Minimum 0, Maximum 100]"

definition string_array_schema :: schema where
  "string_array_schema = Schema [Type TArray, Items string_schema]"

definition regionEnum :: schema where
  "regionEnum = Schema [Type TString, Enum [''USA'', ''EU'', ''UK'', ''CA'', ''AU'', ''Other'']]"

definition languageEnum :: schema where
  "languageEnum =
     Schema [Type TString, Enum [''EN'', ''FR'', ''ES'', ''DE'', ''IT'', ''PT'', ''NL'', ''Other'']]"

definition statusEnum :: schema where
  "statusEnum = Schema [Type TString, Enum [''OK'', ''ATTN'', ''FAIL'', ''TBD'', ''FYI'']]"

definition riskLevelEnum :: schema where
  "riskLevelEnum = Schema [Type TString, Enum [''Low'', ''Medium'', ''High'', ''Prohibited'']]"

definition actionEnum :: schema where
  "actionEnum = Schema [Type TString, Enum [''Keep'', ''Modify'', ''Remove'', ''Escalate'']]"

definition methodEnum :: schema where
  "methodEnum = Schema [Type TString, Enum [''Bitmap'', ''Vector'', ''OCR'', ''Manual'']]"

definition symbologyEnum :: schema where
  "symbologyEnum =
     Schema [Type TString,
             Enum [''UPC-A'', ''EAN-13'', ''Code128'', ''QR'', ''DataMatrix'', ''Other'']]"

definition fileItem :: schema where
  "fileItem =
     Schema [Type TObject, AdditionalProperties False,
       Required [''type'', ''filename'', ''status_code''],
       Properties
         [(''type'', Schema [Type TString, Enum [''Copy Document'', ''Artwork'', ''Other'']]),
          (''filename'', nonempty_string_schema),
          (''status_code'', Schema [Ref statusEnum]),
          (''note'', string_schema)]]"

definition region_array_schema :: schema where
  "region_array_schema =
     Schema [Type TArray, MinItems 1, UniqueItems True, Items (Schema [Ref regionEnum])]"

definition step1_schema :: schema where
  "step1_schema =
     Schema [Type TObject, AdditionalProperties False,
       Required [''project_name'', ''round_version'', ''regions_in_scope'', ''due_date''],
       Properties
         [(''project_name'', nonempty_string_schema),
          (''round_version'', nonempty_string_schema),
          (''regions_in_scope'', region_array_schema),
          (''due_date'', Schema [Type TString, Pattern due_date_pattern])]]"

text \<open>
  The two \<open>contains\<close> clauses of \<open>step2\<close> stand under \<open>allOf\<close> of the \<open>step2\<close> object itself,
  beside \<open>properties\<close>, not inside the schema of \<open>files\<close>.
\<close>

definition contains_type :: "string \<Rightarrow> schema" where
  "contains_type t =
     Schema [Contains (Schema [Type TObject, Required [''type''],
                               Properties [(''type'', Schema [Const t])]])]"

definition step2_schema :: schema where
  "step2_schema =
     Schema [Type TObject, AdditionalProperties False,
       Required [''files''],
       Properties
         [(''files'', Schema [Type TArray, Items (Schema [Ref fileItem]), MinItems 2])],
       AllOf [contains_type ''Copy Document'', contains_type ''Artwork'']]"

definition copy_quality_item :: schema where
  "copy_quality_item =
     Schema [Type TObject, AdditionalProperties False,
       Required [''language'', ''original_text'', ''recommendation'', ''status_code'',
                 ''evidence''],
       Properties
         [(''language'', Schema [Ref languageEnum]),
          (''original_text'', string_schema),
          (''recommendation'', string_schema),
          (''status_code'', Schema [Ref statusEnum]),
          (''evidence'', string_schema)]]"

definition claim_risk_item :: schema where
  "claim_risk_item =
     Schema [Type TObject, AdditionalProperties False,
       Required [''language'', ''claim'', ''risk_level'', ''rationale'', ''regions_impacted'',
                 ''action'', ''status_code''],
       Properties
         [(''language'', Schema [Ref languageEnum]),
          (''claim'', string_schema),
          (''risk_level'', Schema [Ref riskLevelEnum]),
          (''rationale'', string_schema),
          (''regions_impacted'', region_array_schema),
          (''action'', Schema [Ref actionEnum]),
          (''status_code'', Schema [Ref statusEnum])]]"

definition label_claim_conversion_item :: schema where
  "label_claim_conversion_item =
     Schema [Type TObject, AdditionalProperties False,
       Required [''source'', ''declared_ml'', ''calculated_fl_oz'', ''declared_fl_oz'',
                 ''within_tolerance'', ''status_code'', ''notes''],
       Properties
         [(''source'', nonempty_string_schema),
          (''declared_ml'', number_schema),
          (''calculated_fl_oz'', number_schema),
          (''declared_fl_oz'', number_schema),
          (''within_tolerance'', boolean_schema),
          (''status_code'', Schema [Ref statusEnum]),
          (''notes'', string_schema)]]"

definition artwork_match_item :: schema where
  "artwork_match_item =
     Schema [Type TObject, AdditionalProperties False,
       Required [''field'', ''copy_doc_value'', ''artwork_value'', ''match'', ''notes''],
       Properties
         [(''field'', string_schema),
          (''copy_doc_value'', string_schema),
          (''artwork_value'', string_schema),
          (''match'', boolean_schema),
          (''notes'', string_schema)]]"

definition font_size_item :: schema where
  "font_size_item =
     Schema [Type TObject, AdditionalProperties False,
       Required [''text'', ''jurisdiction'', ''required_min_pt'', ''measured_min_pt'', ''method'',
                 ''status_code'', ''screenshot_id''],
       Properties
         [(''text'', string_schema),
          (''jurisdiction'', string_schema),
          (''required_min_pt'', number_schema),
          (''measured_min_pt'', number_schema),
          (''method'', Schema [Ref methodEnum]),
          (''status_code'', Schema [Ref statusEnum]),
          (''screenshot_id'', string_schema)]]"

definition barcode_item :: schema where
  "barcode_item =
     Schema [Type TObject, AdditionalProperties False,
       Required [''symbology'', ''encoded_digits'', ''check_digit_valid'', ''x_dim_mm'',
                 ''quiet_zone_mm'', ''module_count'', ''print_contrast'', ''scan_test''],
       Properties
         [(''symbology'', Schema [Ref symbologyEnum]),
          (''encoded_digits'', Schema [Type TString, Pattern encoded_digits_pattern]),
          (''check_digit_valid'', boolean_schema),
          (''x_dim_mm'', number_schema),
          (''quiet_zone_mm'', number_schema),
          (''module_count'', integer_schema),
          (''print_contrast'', percent_schema),
          (''scan_test'', Schema [Type TString, Enum [''Pass'', ''Fail'', ''N/A'']])]]"

definition visual_snapshots_item :: schema where
  "visual_snapshots_item =
     Schema [Type TObject, AdditionalProperties False,
       Required [''id'', ''what'', ''where'', ''fix'', ''linked_rows'', ''status_after_fix''],
       Properties
         [(''id'', Schema [Type TString, Pattern snapshot_id_pattern]),
          (''what'', string_schema),
          (''where'', string_schema),
          (''fix'', string_schema),
          (''linked_rows'', string_array_schema),
          (''status_after_fix'', Schema [Type TString, Enum [''TBD'', ''Resolved'', ''Rejected'']])]]"

definition summary_row_item :: schema where
  "summary_row_item =
     Schema [Type TObject, AdditionalProperties False,
       Required [''area'', ''checks'', ''matches'', ''score_percent'', ''notes''],
       Properties
         [(''area'', string_schema),
          (''checks'', integer_schema),
          (''matches'', integer_schema),
          (''score_percent'', percent_schema),
          (''notes'', string_schema)]]"

definition score_summary_schema :: schema where
  "score_summary_schema =
     Schema [Type TObject, AdditionalProperties False,
       Required [''summary_rows'', ''top_fixes'', ''attention'', ''next_steps''],
       Properties
         [(''summary_rows'', Schema [Type TArray, Items summary_row_item]),
          (''top_fixes'', string_array_schema),
          (''attention'', string_array_schema),
          (''next_steps'', string_array_schema)]]"

definition step3_schema :: schema where
  "step3_schema =
     Schema [Type TObject, AdditionalProperties False,
       Required [''copy_quality'', ''claim_risk'', ''label_claim_conversion'', ''artwork_match'',
                 ''font_size'', ''barcode'', ''visual_snapshots'', ''score_summary''],
       Properties
         [(''copy_quality'', Schema [Type TArray, Items copy_quality_item]),
          (''claim_risk'', Schema [Type TArray, Items claim_risk_item]),
          (''label_claim_conversion'', Schema [Type TArray, Items label_claim_conversion_item]),
          (''artwork_match'', Schema [Type TArray, Items artwork_match_item]),
          (''font_size'', Schema [Type TArray, Items font_size_item]),
          (''barcode'', Schema [Type TArray, Items barcode_item]),
          (''visual_snapshots'', Schema [Type TArray, Items visual_snapshots_item]),
          (''score_summary'', score_summary_schema)]]"

definition step4_schema :: schema where
  "step4_schema =
     Schema [Type TObject, AdditionalProperties False,
       Properties
         [(''version_change_log'', string_schema),
          (''creative_brand_voice_check'', string_schema),
          (''one_page_pdf_summary_export'', boolean_schema)]]"

definition constraint_item :: schema where
  "constraint_item =
     Schema [Type TObject, AdditionalProperties False,
       Required [''constraint'', ''source'', ''applies_to'', ''notes''],
       Properties
         [(''constraint'', string_schema),
          (''source'',
             Schema [Type TString,
                     Enum [''Retailer'', ''Regulatory'', ''Brand'', ''Legal'', ''Other'']]),
          (''applies_to'', string_schema),
          (''notes'', string_schema)]]"

definition step5_schema :: schema where
  "step5_schema =
     Schema [Type TObject, AdditionalProperties False,
       Required [''constraints''],
       Properties [(''constraints'', Schema [Type TArray, Items constraint_item])]]"

definition SCHEMA :: schema where
  "SCHEMA =
     Schema [Type TObject, AdditionalProperties False,
       Required [''step1'', ''step2'', ''step3'', ''step5''],
       Properties
         [(''version'', Schema [Type TString, Pattern version_pattern]),
          (''step1'', step1_schema),
          (''step2'', step2_schema),
          (''step3'', step3_schema),
          (''step4'', step4_schema),
          (''step5'', step5_schema)]]"

section \<open>\<open>validate_payload\<close>\<close>

text \<open>
  The key of the sort is \<open>list(e.path)\<close>: lists compare item by item, names as texts and
  indices as numbers. Two paths into one payload never hold a name and an index at the
  place where they first differ, since a node is either a dict or a list; the order below
  puts an index first there.
\<close>

instantiation seg :: linorder
begin

fun less_eq_seg :: "seg \<Rightarrow> seg \<Rightarrow> bool" where
  "less_eq_seg (Idx i) (Idx j) = (i \<le> j)"
| "less_eq_seg (Idx i) (Key b) = True"
| "less_eq_seg (Key a) (Idx j) = False"
| "less_eq_seg (Key a) (Key b) = (a \<le> b)"

definition less_seg :: "seg \<Rightarrow> seg \<Rightarrow> bool" where
  "less_seg x y = (x \<le> y \<and> \<not> y \<le> x)"

instance
proof
  fix x y z :: seg
  show "(x < y) = (x \<le> y \<and> \<not> y \<le> x)" by (simp add: less_seg_def)
  show "x \<le> x" by (cases x) simp_all
  show "x \<le> y \<Longrightarrow> y \<le> z \<Longrightarrow> x \<le> z" by (cases x; cases y; cases z) auto
  show "x \<le> y \<Longrightarrow> y \<le> x \<Longrightarrow> x = y" by (cases x; cases y) auto
  show "x \<le> y \<or> y \<le> x" by (cases x; cases y) auto
qed

end

fun seg_text :: "seg \<Rightarrow> string" where
  "seg_text (Key k) = k"
| "seg_text (Idx i) = str_nat i"

text \<open>\<open>"/".join(map(str, e.path)) or "<root>"\<close>.\<close>

definition path_text :: "seg list \<Rightarrow> string" where
  "path_text p = (let t = join ''/'' (map seg_text p) in if t = [] then ''<root>'' else t)"

text \<open>The variable \<open>errors\<close> of \<open>validate_payload\<close>; Python's \<open>sorted\<close> is stable.\<close>

definition sorted_errors :: "json \<Rightarrow> verror list" where
  "sorted_errors payload = sort_key path (iter_errors SCHEMA payload)"

text \<open>
  \<open>message\<close> gives the text of \<open>e.message\<close>; \<open>error_line\<close> is what the loop appends to
  \<open>msgs\<close>.
\<close>

definition error_line :: "(verror \<Rightarrow> string) \<Rightarrow> verror \<Rightarrow> string" where
  "error_line message e = path_text (path e) @ '': '' @ message e"

definition validate_payload :: "(verror \<Rightarrow> string) \<Rightarrow> json \<Rightarrow> pyerr + json" where
  "validate_payload message payload =
     (let errors = sorted_errors payload in
      if errors \<noteq> [] then
        Inl (ValueError (''Invalid SOP payload:'' @ nl @ join nl (map (error_line message) errors)))
      else Inr payload)"


section \<open>The section renderers\<close>

text \<open>
  Every renderer starts \<open>rows\<close> with the column names, appends one list of cells for each
  item of a payload array and calls \<open>_print_table\<close>. A cell is written as the function that
  computes it from the item: \<open>x[k]\<close>, \<open>STATUS_EMOJI[x[k]]\<close>, a choice on the truth of
  \<open>x[k]\<close>, or \<open>", ".join(x[k])\<close>. The cells of a row are computed from left to right and the
  first exception ends the run.
\<close>

type_synonym cell = "json \<Rightarrow> pyerr + json"

definition field :: "string \<Rightarrow> cell" where
  "field k x = getitem x k"

definition status :: "string \<Rightarrow> cell" where
  "status k x = bnd (getitem x k) status_emoji"

definition choice :: "string \<Rightarrow> string \<Rightarrow> string \<Rightarrow> cell" where
  "choice k yes no x = bnd (getitem x k) (\<lambda>v. Inr (JStr (if truthy v then yes else no)))"

definition joined :: "string \<Rightarrow> cell" where
  "joined k x = bnd (getitem x k) (\<lambda>v. bnd (join_iter '', '' v) (\<lambda>t. Inr (JStr t)))"

definition table :: "string \<Rightarrow> string list \<Rightarrow> cell list \<Rightarrow> json \<Rightarrow> pyerr + string" where
  "table title names cells items =
     bnd (py_iter items) (\<lambda>xs.
     bnd (map_res (\<lambda>x. map_res (\<lambda>c. c x) cells) xs) (\<lambda>rows.
       print_table title (map JStr names # rows)))"

definition keycap :: "char \<Rightarrow> string" where
  "keycap d = [d, CHR 0xEF, CHR 0xB8, CHR 0x8F, CHR 0xE2, CHR 0x83, CHR 0xA3]"

definition check_mark :: string where
  "check_mark = [CHR 0xE2, CHR 0x9C, CHR 0x85]"

definition warning_sign :: string where
  "warning_sign = [CHR 0xE2, CHR 0x9A, CHR 0xA0, CHR 0xEF, CHR 0xB8, CHR 0x8F]"

definition cross_mark :: string where
  "cross_mark = [CHR 0xE2, CHR 0x9D, CHR 0x8C]"

definition plus_minus :: string where
  "plus_minus = [CHR 0xC2, CHR 0xB1]"

definition step1_title :: string where
  "step1_title = keycap CHR ''1'' @ '' Project Header''"

definition render_step1 :: "json \<Rightarrow> pyerr + string" where
  "render_step1 d =
     bnd (getitem d ''project_name'') (\<lambda>project_name.
     bnd (getitem d ''round_version'') (\<lambda>round_version.
     bnd (getitem d ''regions_in_scope'') (\<lambda>regions.
     bnd (format_regions_with_flags regions) (\<lambda>flagged.
     bnd (getitem d ''due_date'') (\<lambda>due_date.
       print_table step1_title
         [[JStr ''Field'', JStr ''Fill In''],
          [JStr ''Project Name'', project_name],
          [JStr ''Round / Version'', round_version],
          [JStr ''Regions in Scope'', JStr flagged],
          [JStr ''Due Date'', due_date]])))))"

definition step2_title :: string where
  "step2_title = keycap CHR ''2'' @ '' Files to Attach''"

definition step2_names :: "string list" where
  "step2_names = [''Type'', ''Filename'', ''Status'', ''Note'']"

definition note_cell :: cell where
  "note_cell f = get_default f ''note'' (JStr [])"

definition render_step2 :: "json \<Rightarrow> pyerr + string" where
  "render_step2 d =
     bnd (getitem d ''files'')
       (table step2_title step2_names
          [field ''type'', field ''filename'', status ''status_code'', note_cell])"

definition copy_quality_names :: "string list" where
  "copy_quality_names = [''Language'', ''Original Text'', ''Recommendation'', ''Status'', ''Evidence'']"

definition render_step3_copy_quality :: "json \<Rightarrow> pyerr + string" where
  "render_step3_copy_quality items =
     table ''A. Copy Quality'' copy_quality_names
       [field ''language'', field ''original_text'', field ''recommendation'',
        status ''status_code'', field ''evidence''] items"

definition claim_risk_names :: "string list" where
  "claim_risk_names =
     [''Language'', ''Claim (quote)'', ''Risk Level'', ''Rationale'', ''Regions'', ''Action'',
      ''Status'']"

definition render_step3_claim_risk :: "json \<Rightarrow> pyerr + string" where
  "render_step3_claim_risk items =
     table ''B. Claim Risk'' claim_risk_names
       [field ''language'', field ''claim'', field ''risk_level'', field ''rationale'',
        joined ''regions_impacted'', field ''action'', status ''status_code''] items"

definition label_claim_conversion_names :: "string list" where
  "label_claim_conversion_names =
     [''Source'', ''Declared (mL)'', ''Calculated (fl oz)'', ''Declared (fl oz)'',
      ''Within '' @ plus_minus @ ''0.10'', ''Status'', ''Notes'']"

definition render_step3_label_claim_conversion :: "json \<Rightarrow> pyerr + string" where
  "render_step3_label_claim_conversion items =
     table ''C. Label-Claim Conversion'' label_claim_conversion_names
       [field ''source'', field ''declared_ml'', field ''calculated_fl_oz'',
        field ''declared_fl_oz'', choice ''within_tolerance'' ''Yes'' ''No'',
        status ''status_code'', field ''notes''] items"

definition artwork_match_names :: "string list" where
  "artwork_match_names = [''Field'', ''Copy Doc Value'', ''Artwork Value'', ''Match'', ''Notes'']"

definition render_step3_artwork_match :: "json \<Rightarrow> pyerr + string" where
  "render_step3_artwork_match items =
     table ''D. Artwork Match'' artwork_match_names
       [field ''field'', field ''copy_doc_value'', field ''artwork_value'',
        choice ''match'' check_mark cross_mark, field ''notes''] items"

definition font_size_names :: "string list" where
  "font_size_names =
     [''Text String / Field'', ''Jurisdiction'', ''Required Min (pt)'', ''Measured Min (pt)'',
      ''Method'', ''Status'', ''Screenshot ID'']"

definition render_step3_font_size :: "json \<Rightarrow> pyerr + string" where
  "render_step3_font_size items =
     table ''E. Font Size'' font_size_names
       [field ''text'', field ''jurisdiction'', field ''required_min_pt'',
        field ''measured_min_pt'', field ''method'', status ''status_code'',
        field ''screenshot_id''] items"

definition barcode_names :: "string list" where
  "barcode_names =
     [''Symbology'', ''Encoded Digits'', ''Check Digit Valid'', ''X-Dim (mm)'',
      ''Quiet Zone (mm)'', ''Module Count'', ''Print Contrast'', ''Scan Test'']"

definition render_step3_barcode :: "json \<Rightarrow> pyerr + string" where
  "render_step3_barcode items =
     table ''F. Barcode'' barcode_names
       [field ''symbology'', field ''encoded_digits'', choice ''check_digit_valid'' ''Yes'' ''No'',
        field ''x_dim_mm'', field ''quiet_zone_mm'', field ''module_count'',
        field ''print_contrast'', field ''scan_test''] items"

definition visual_snapshots_names :: "string list" where
  "visual_snapshots_names =
     [''ID'', ''What'', ''Where'', ''Fix'', ''Linked Rows'', ''Status After Fix'']"

definition render_step3_visual_snapshots :: "json \<Rightarrow> pyerr + string" where
  "render_step3_visual_snapshots items =
     table ''G. Visual Snapshots'' visual_snapshots_names
       [field ''id'', field ''what'', field ''where'', field ''fix'', joined ''linked_rows'',
        field ''status_after_fix''] items"

definition score_summary_names :: "string list" where
  "score_summary_names = [''Area'', ''Checks'', ''Matches'', ''Score %'', ''Notes'']"

definition top_fixes_title :: string where
  "top_fixes_title = ''Top Fixes ('' @ cross_mark @ '')''"

definition attention_title :: string where
  "attention_title = ''Attention ('' @ warning_sign @ '')''"

text \<open>The local function \<open>small_table\<close>: the only cell of a row is the item itself.\<close>

definition small_table :: "string \<Rightarrow> json \<Rightarrow> pyerr + string" where
  "small_table title items = table title [''Item''] [Inr] items"

definition nl2 :: string where
  "nl2 = nl @ nl"

definition render_step3_score_summary :: "json \<Rightarrow> pyerr + string" where
  "render_step3_score_summary d =
     bnd (getitem d ''summary_rows'') (\<lambda>summary_rows.
     bnd (table ''H. Score & Summary'' score_summary_names
            [field ''area'', field ''checks'', field ''matches'', field ''score_percent'',
             field ''notes''] summary_rows) (\<lambda>block.
     bnd (get_default d ''top_fixes'' (JArr [])) (\<lambda>top_fixes.
     bnd (small_table top_fixes_title top_fixes) (\<lambda>piece1.
     bnd (get_default d ''attention'' (JArr [])) (\<lambda>attention.
     bnd (small_table attention_title attention) (\<lambda>piece2.
     bnd (get_default d ''next_steps'' (JArr [])) (\<lambda>next_steps.
     bnd (small_table ''Next Steps'' next_steps) (\<lambda>piece3.
       Inr (join nl2 [block, piece1, piece2, piece3])))))))))"

definition render_step3 :: "json \<Rightarrow> pyerr + string" where
  "render_step3 d =
     bnd (bnd (getitem d ''copy_quality'') render_step3_copy_quality) (\<lambda>a.
     bnd (bnd (getitem d ''claim_risk'') render_step3_claim_risk) (\<lambda>b.
     bnd (bnd (getitem d ''label_claim_conversion'') render_step3_label_claim_conversion) (\<lambda>c.
     bnd (bnd (getitem d ''artwork_match'') render_step3_artwork_match) (\<lambda>d'.
     bnd (bnd (getitem d ''font_size'') render_step3_font_size) (\<lambda>e.
     bnd (bnd (getitem d ''barcode'') render_step3_barcode) (\<lambda>f.
     bnd (bnd (getitem d ''visual_snapshots'') render_step3_visual_snapshots) (\<lambda>g.
     bnd (bnd (getitem d ''score_summary'') render_step3_score_summary) (\<lambda>h.
       Inr (join nl2 [a, b, c, d', e, f, g, h])))))))))"

definition step4_title :: string where
  "step4_title = keycap CHR ''4'' @ '' Optional Fields''"

text \<open>One \<open>if k in d: rows.append([label, cell])\<close> of \<open>render_step4\<close>.\<close>

definition optional_row :: "json \<Rightarrow> string \<Rightarrow> string \<Rightarrow> cell \<Rightarrow> pyerr + json list list" where
  "optional_row d k label c =
     bnd (contains_key k d) (\<lambda>present.
       if present then bnd (c d) (\<lambda>v. Inr [[JStr label, v]]) else Inr [])"

definition render_step4 :: "json \<Rightarrow> pyerr + string" where
  "render_step4 d =
     bnd (optional_row d ''version_change_log'' ''Version-Change Log''
            (field ''version_change_log'')) (\<lambda>r1.
     bnd (optional_row d ''creative_brand_voice_check'' ''Creative Brand-Voice Check''
            (field ''creative_brand_voice_check'')) (\<lambda>r2.
     bnd (optional_row d ''one_page_pdf_summary_export'' ''One-Page PDF Summary Export''
            (choice ''one_page_pdf_summary_export'' ''Yes'' ''No'')) (\<lambda>r3.
       print_table step4_title ([JStr ''Field'', JStr ''Content''] # r1 @ r2 @ r3))))"

definition step5_title :: string where
  "step5_title = keycap CHR ''5'' @ '' Special Notes / Constraints''"

definition step5_names :: "string list" where
  "step5_names = [''Constraint'', ''Source'', ''Applies To (Region/Panel)'', ''Notes'']"

definition render_step5 :: "json \<Rightarrow> pyerr + string" where
  "render_step5 d =
     bnd (getitem d ''constraints'')
       (table step5_title step5_names
          [field ''constraint'', field ''source'', field ''applies_to'', field ''notes''])"

section \<open>\<open>main\<close>\<close>

text \<open>
  The part of \<open>main\<close> after the payload is parsed. \<open>render_payload\<close> is the assembly of
  \<open>md\<close>; an exception of \<open>validate_payload\<close> is printed and ends the run with status 1, one
  of a renderer is not caught.
\<close>

definition render_payload :: "json \<Rightarrow> pyerr + string" where
  "render_payload payload =
     bnd (bnd (getitem payload ''step1'') render_step1) (\<lambda>p1.
     bnd (bnd (getitem payload ''step2'') render_step2) (\<lambda>p2.
     bnd (bnd (getitem payload ''step3'') render_step3) (\<lambda>p3.
     bnd (contains_key ''step4'' payload) (\<lambda>has4.
     bnd (if has4 then bnd (bnd (getitem payload ''step4'') render_step4) (\<lambda>p4. Inr [p4])
          else Inr []) (\<lambda>p4.
     bnd (bnd (getitem payload ''step5'') render_step5) (\<lambda>p5.
       Inr (join nl2 ([p1, p2, p3] @ p4 @ [p5]) @ nl)))))))"

datatype outcome = Written string | Exit nat pyerr | Uncaught pyerr

definition main :: "(verror \<Rightarrow> string) \<Rightarrow> json \<Rightarrow> outcome" where
  "main message payload =
     (case validate_payload message payload of
        Inl e \<Rightarrow> Exit 1 e
      | Inr p \<Rightarrow> (case render_payload payload of Inl e \<Rightarrow> Uncaught e | Inr md \<Rightarrow> Written md))"


section \<open>What the specification says, in its own words\<close>

text \<open>
  The region display mapping of the specification: normalise the label (trim, upper
  case, no periods), resolve it through the alias table, look the canonical key up in the
  flag table, and take the fallback symbol when the key is absent.
\<close>

definition spec_normalize :: "string \<Rightarrow> string" where
  "spec_normalize label = remove_char CHR ''.'' (upper (strip label))"

definition spec_canonical_key :: "string \<Rightarrow> string" where
  "spec_canonical_key label =
     (case map_of REGION_ALIASES (spec_normalize label) of
        Some canonical \<Rightarrow> canonical
      | None \<Rightarrow> spec_normalize label)"

definition spec_region_symbol :: "string \<Rightarrow> string" where
  "spec_region_symbol label =
     (case map_of REGION_FLAGS (spec_canonical_key label) of
        Some flag \<Rightarrow> flag
      | None \<Rightarrow> globe)"

text \<open>
  The table contract of the specification: the title, a blank line, a header line, a
  separator line with one placeholder for each column, and one line for each data row,
  the cells joined with a fixed delimiter.
\<close>

definition header_line :: "string list \<Rightarrow> string" where
  "header_line names = ''| '' @ join '' | '' names @ '' |''"

definition separator_line :: "nat \<Rightarrow> string" where
  "separator_line n = ''|'' @ join ''|'' (replicate n ''---'') @ ''|''"

definition row_line :: "json list \<Rightarrow> string" where
  "row_line cells = ''| '' @ join '' | '' (map py_str cells) @ '' |''"

definition table_text :: "string \<Rightarrow> string list \<Rightarrow> json list list \<Rightarrow> string" where
  "table_text title names rows =
     title @ nl @ nl @ header_line names @ nl @ separator_line (length names)
     @ concat (map (\<lambda>r. nl @ row_line r) rows)"

section \<open>Sample payloads\<close>

text \<open>
  The end-to-end scenario of the specification: a filled \<open>step1\<close>, two files, every table of
  \<open>step3\<close> empty, no \<open>step4\<close>, no constraints. \<open>sample_with\<close> varies the list of files and
  puts further members in front.
\<close>

definition file_entry :: "string \<Rightarrow> string \<Rightarrow> json" where
  "file_entry t name =
     JObj [(''type'', JStr t), (''filename'', JStr name), (''status_code'', JStr ''OK'')]"

definition sample_step1 :: json where
  "sample_step1 =
     JObj [(''project_name'', JStr ''X''), (''round_version'', JStr ''1.0''),
           (''regions_in_scope'', JArr [JStr ''USA'']), (''due_date'', JStr ''2025-01-01'')]"

definition sample_step3 :: json where
  "sample_step3 =
     JObj [(''copy_quality'', JArr []), (''claim_risk'', JArr []),
           (''label_claim_conversion'', JArr []), (''artwork_match'', JArr []),
           (''font_size'', JArr []), (''barcode'', JArr []), (''visual_snapshots'', JArr []),
           (''score_summary'',
              JObj [(''summary_rows'', JArr []), (''top_fixes'', JArr []),
                    (''attention'', JArr []), (''next_steps'', JArr [])])]"

definition sample_members :: "json list \<Rightarrow> (string \<times> json) list" where
  "sample_members files =
     [(''step1'', sample_step1), (''step2'', JObj [(''files'', JArr files)]),
      (''step3'', sample_step3), (''step5'', JObj [(''constraints'', JArr [])])]"

definition two_files :: "json list" where
  "two_files = [file_entry ''Copy Document'' ''copy.docx'', file_entry ''Artwork'' ''art.pdf'']"

definition sample :: json where
  "sample = JObj (sample_members two_files)"

text \<open>A stand-in for the message texts of the package, to run \<open>validate_payload\<close> on a payload.\<close>

definition plain_message :: "verror \<Rightarrow> string" where
  "plain_message e = ''violation''"

definition one_file :: "json list" where
  "one_file = [file_entry ''Copy Document'' ''copy.docx'']"

definition two_artwork :: "json list" where
  "two_artwork = [file_entry ''Artwork'' ''front.pdf'', file_entry ''Artwork'' ''back.pdf'']"

definition versioned :: "string \<Rightarrow> json" where
  "versioned v = JObj ((''version'', JStr v) # sample_members two_files)"

text \<open>A payload with several violations: members missing, one unknown, two of a wrong kind.\<close>

definition broken :: json where
  "broken =
     JObj [(''version'', JInt 7), (''step5'', JInt 3),
           (''step2'', JObj [(''files'', JArr [JInt 1, JObj []])]), (''zz'', JNull)]"

section \<open>Nodes of a payload\<close>

text \<open>The node that a path addresses, if there is one.\<close>

fun node_at :: "json \<Rightarrow> seg list \<Rightarrow> json option" where
  "node_at v [] = Some v"
| "node_at v (Key k # p) =
     (case v of
        JObj kvs \<Rightarrow> (case map_of kvs k of None \<Rightarrow> None | Some child \<Rightarrow> node_at child p)
      | _ \<Rightarrow> None)"
| "node_at v (Idx i # p) =
     (case v of
        JArr xs \<Rightarrow> (if i < length xs then node_at (xs ! i) p else None)
      | _ \<Rightarrow> None)"

section \<open>Violations, declaratively\<close>

text \<open>
  What it means for a payload to violate a schema at a path: one rule for each check of
  the validator of the specification (type, unknown field, missing field, enumeration,
  pattern, range, cardinality, duplicate item, missing variant) and one for each way of
  descending (into a property, into an item, into a clause of \<open>allOf\<close>, through a
  reference). The rules say where each keyword applies; they do not enumerate.
\<close>

inductive violation :: "schema \<Rightarrow> json \<Rightarrow> seg list \<Rightarrow> failure \<Rightarrow> bool" where
  wrong_type:
    "Type t \<in> set ks \<Longrightarrow> \<not> is_type t v \<Longrightarrow> violation (Schema ks) v [] (NotOfType t)"
| unknown_field:
    "AdditionalProperties False \<in> set ks \<Longrightarrow>
     extras = filter (\<lambda>k. k \<notin> set (declared_properties ks)) (map fst kvs) \<Longrightarrow> extras \<noteq> [] \<Longrightarrow>
     violation (Schema ks) (JObj kvs) [] (Unexpected extras)"
| missing_field:
    "Required names \<in> set ks \<Longrightarrow> n \<in> set names \<Longrightarrow> map_of kvs n = None \<Longrightarrow>
     violation (Schema ks) (JObj kvs) [] (MissingProperty n)"
| short_text:
    "MinLength n \<in> set ks \<Longrightarrow> length s < n \<Longrightarrow> violation (Schema ks) (JStr s) [] (TooShortText n)"
| no_match:
    "Pattern pat \<in> set ks \<Longrightarrow> \<not> re_search pat s \<Longrightarrow> violation (Schema ks) (JStr s) [] (NoMatch pat)"
| not_in_enum:
    "Enum allowed \<in> set ks \<Longrightarrow> v \<notin> JStr ` set allowed \<Longrightarrow>
     violation (Schema ks) v [] (NotInEnum allowed)"
| not_const:
    "Const c \<in> set ks \<Longrightarrow> v \<noteq> JStr c \<Longrightarrow> violation (Schema ks) v [] (NotConst c)"
| few_items:
    "MinItems n \<in> set ks \<Longrightarrow> length xs < n \<Longrightarrow> violation (Schema ks) (JArr xs) [] (TooFewItems n)"
| duplicate_item:
    "UniqueItems True \<in> set ks \<Longrightarrow> \<not> uniq xs \<Longrightarrow> violation (Schema ks) (JArr xs) [] NotUnique"
| no_variant:
    "Contains sub \<in> set ks \<Longrightarrow> \<forall>x \<in> set xs. \<exists>p f. violation sub x p f \<Longrightarrow>
     violation (Schema ks) (JArr xs) [] NoItemMatches"
| below_minimum:
    "Minimum b \<in> set ks \<Longrightarrow> number_below v b \<Longrightarrow> violation (Schema ks) v [] (BelowMinimum b)"
| above_maximum:
    "Maximum b \<in> set ks \<Longrightarrow> number_above v b \<Longrightarrow> violation (Schema ks) v [] (AboveMaximum b)"
| in_property:
    "Properties ps \<in> set ks \<Longrightarrow> (n, sub) \<in> set ps \<Longrightarrow> map_of kvs n = Some child \<Longrightarrow>
     violation sub child p f \<Longrightarrow> violation (Schema ks) (JObj kvs) (Key n # p) f"
| in_item:
    "Items sub \<in> set ks \<Longrightarrow> i < length xs \<Longrightarrow> violation sub (xs ! i) p f \<Longrightarrow>
     violation (Schema ks) (JArr xs) (Idx i # p) f"
| in_all_of:
    "AllOf subs \<in> set ks \<Longrightarrow> sub \<in> set subs \<Longrightarrow> violation sub v p f \<Longrightarrow>
     violation (Schema ks) v p f"
| in_ref:
    "Ref target \<in> set ks \<Longrightarrow> violation target v p f \<Longrightarrow> violation (Schema ks) v p f"

text \<open>A dict without one of its members.\<close>

definition without :: "string \<Rightarrow> (string \<times> json) list \<Rightarrow> (string \<times> json) list" where
  "without k kvs = filter (\<lambda>kv. fst kv \<noteq> k) kvs"

section \<open>Text and result lemmas\<close>

lemma bnd_Inr [simp]: "bnd (Inr x) f = f x"
  by (simp add: bnd_def)

lemma bnd_Inl [simp]: "bnd (Inl e) f = Inl e"
  by (simp add: bnd_def)

lemma map_res_the_str: "map_res the_str (map JStr ss) = Inr ss"
  by (induction ss) (simp_all add: the_str_def)

lemma join_values_texts [simp]: "join_values sep (map JStr ss) = Inr (join sep ss)"
  by (simp add: join_values_def map_res_the_str)

lemma join_Cons: "join sep (x # xs) = x @ concat (map (\<lambda>y. sep @ y) xs)"
  by (induction xs arbitrary: x) simp_all

lemma print_table_text:
  "print_table title (map JStr names # rows) = Inr (table_text title names rows)"
  by (simp add: print_table_def join_Cons table_text_def header_line_def separator_line_def
        row_line_def comp_def)

section \<open>The region display mapping\<close>

lemma or_empty_text [simp]: "or_empty (JStr s) = Inr s"
  by (simp add: or_empty_def)

lemma flags_other [simp]: "map_of REGION_FLAGS ''OTHER'' = Some globe"
  by (simp add: REGION_FLAGS_def)

lemma region_key_spec: "region_key s = spec_canonical_key s"
  by (simp add: region_key_def spec_canonical_key_def spec_normalize_def table_get_def Let_def
        split: option.splits)

lemma format_region_text:
  "format_region (JStr r) = Inr (strip (spec_region_symbol r @ '' '' @ r))"
  by (simp add: format_region_def region_key_spec spec_region_symbol_def
        table_get_def py_str_def Let_def split: option.splits)

lemma map_res_format_region:
  "map_res format_region (map JStr rs) =
     Inr (map (\<lambda>r. strip (spec_region_symbol r @ '' '' @ r)) rs)"
  by (induction rs) (simp_all add: format_region_text)

lemma truthy_or_empty_list [simp]: "(if truthy (JArr xs) then JArr xs else JArr []) = JArr xs"
  by simp

lemma format_regions_texts:
  "format_regions_with_flags (JArr (map JStr rs)) =
     Inr (join '', '' (map (\<lambda>r. strip (spec_region_symbol r @ '' '' @ r)) rs))"
  unfolding format_regions_with_flags_def truthy_or_empty_list
  by (simp add: py_iter_def map_res_format_region)

lemma symbol_us: "spec_region_symbol ''us'' = flag_USA"
  by code_simp

lemma symbol_US: "spec_region_symbol ''US'' = flag_USA"
  by code_simp

lemma symbol_US_spaced: "spec_region_symbol '' US '' = flag_USA"
  by code_simp

lemma symbol_UNITED_STATES: "spec_region_symbol ''UNITED STATES'' = flag_USA"
  by code_simp

lemma symbol_USA: "spec_region_symbol ''USA'' = flag_USA"
  by code_simp

lemma symbol_MARS: "spec_region_symbol ''MARS'' = globe"
  by code_simp

lemma cell_MARS: "format_regions_with_flags (JArr [JStr ''MARS'']) = Inr (globe @ '' MARS'')"
  by code_simp

text \<open>
  C2. For every list of region labels, \<open>_format_regions_with_flags\<close> gives each label the
  symbol that the specification's mapping (trim, upper case, strip periods, alias table,
  flag table, fallback) gives it, followed by the label as it was written, and joins the
  cells with a comma. \<open>us\<close>, \<open>US\<close>, \<open>US\<close> between spaces and \<open>UNITED STATES\<close> get the
  symbol of \<open>USA\<close>; \<open>MARS\<close> gets the fallback symbol and its cell keeps the text \<open>MARS\<close>.
\<close>

theorem format_regions_with_flags_spec:
  "format_regions_with_flags (JArr (map JStr labels)) =
     Inr (join '', '' (map (\<lambda>r. strip (spec_region_symbol r @ '' '' @ r)) labels))
   \<and> spec_region_symbol ''us'' = spec_region_symbol ''USA''
   \<and> spec_region_symbol ''US'' = spec_region_symbol ''USA''
   \<and> spec_region_symbol '' US '' = spec_region_symbol ''USA''
   \<and> spec_region_symbol ''UNITED STATES'' = spec_region_symbol ''USA''
   \<and> spec_region_symbol ''MARS'' = globe
   \<and> format_regions_with_flags (JArr [JStr ''MARS'']) = Inr (globe @ '' MARS'')"
  by (simp only: format_regions_texts symbol_us symbol_US symbol_US_spaced
        symbol_UNITED_STATES symbol_USA symbol_MARS cell_MARS simp_thms)

lemma cells_us_MARS:
  "join '', '' (map (\<lambda>r. strip (spec_region_symbol r @ '' '' @ r)) [''us'', ''MARS''])
   = flag_USA @ '' us, '' @ globe @ '' MARS''"
  by code_simp

theorem format_regions_with_flags_spec_witness:
  "format_regions_with_flags (JArr (map JStr [''us'', ''MARS''])) =
     Inr (flag_USA @ '' us, '' @ globe @ '' MARS'')"
  using format_regions_with_flags_spec [of "[''us'', ''MARS'']"]
  by (simp only: cells_us_MARS)

section \<open>The table renderer: layout\<close>

text \<open>
  C7. For every title, every header row of column names and every sequence of data rows,
  \<open>_print_table\<close> returns the title, a blank line, the header line, the separator line
  with one placeholder for each column, and then one line for each data row, in the order
  given, none left out and none merged.
\<close>

theorem print_table_layout:
  "print_table title (map JStr names # rows) =
     Inr (title @ nl @ nl @ header_line names @ nl @ separator_line (length names)
          @ concat (map (\<lambda>r. nl @ row_line r) rows))"
  using print_table_text [of title names rows] by (simp only: table_text_def)


section \<open>Normalising a label twice\<close>

lemma upper_char_idem [simp]: "upper_char (upper_char c) = upper_char c"
  by (simp add: upper_char_def)

lemma upper_char_space [simp]: "is_space (upper_char c) = is_space c"
  by (simp add: upper_char_def is_space_def)

lemma upper_char_dot [simp]: "(upper_char c = CHR ''.'') = (c = CHR ''.'')"
  by (simp add: upper_char_def)

lemma upper_char_dot2 [simp]: "(CHR ''.'' = upper_char c) = (CHR ''.'' = c)"
  using upper_char_dot [of c] by (simp only: eq_commute [of "CHR ''.''"])

lemma upper_idem [simp]: "upper (upper s) = upper s"
  by (simp add: upper_def)

lemma lstrip_upper: "lstrip (upper s) = upper (lstrip s)"
  by (simp add: lstrip_def upper_def dropWhile_map comp_def)

lemma rstrip_upper: "rstrip (upper s) = upper (rstrip s)"
  by (simp add: rstrip_def upper_def dropWhile_map comp_def rev_map)

lemma strip_upper: "strip (upper s) = upper (strip s)"
  by (simp add: strip_def lstrip_upper rstrip_upper)

lemma remove_char_upper: "remove_char CHR ''.'' (upper s) = upper (remove_char CHR ''.'' s)"
  by (simp add: remove_char_def upper_def filter_map comp_def)

lemma remove_char_idem [simp]: "remove_char c (remove_char c s) = remove_char c s"
  by (simp add: remove_char_def)

lemma remove_char_absent: "c \<notin> set s \<Longrightarrow> remove_char c s = s"
  by (induction s) (auto simp: remove_char_def)

lemma rstrip_decomp: "s = rstrip s @ rev (takeWhile is_space (rev s))"
proof -
  have "rev (takeWhile is_space (rev s) @ dropWhile is_space (rev s)) = s"
    by (simp only: takeWhile_dropWhile_id rev_rev_ident)
  then have "rev (dropWhile is_space (rev s)) @ rev (takeWhile is_space (rev s)) = s"
    by (simp only: rev_append)
  then show ?thesis by (simp only: rstrip_def)
qed

lemma rstrip_idem: "rstrip (rstrip s) = rstrip s"
  by (simp add: rstrip_def)

lemma lstrip_rstrip_lstrip: "lstrip (rstrip (lstrip s)) = rstrip (lstrip s)"
proof (cases "rstrip (lstrip s) = []")
  case True
  then show ?thesis by (simp add: lstrip_def)
next
  case False
  define t where "t = lstrip s"
  have t: "t = rstrip t @ rev (takeWhile is_space (rev t))" by (rule rstrip_decomp)
  from False have ne: "rstrip t \<noteq> []" by (simp add: t_def)
  then have "t \<noteq> []" by (auto simp: rstrip_def)
  then have "\<not> is_space (hd t)" unfolding t_def lstrip_def by (rule hd_dropWhile)
  moreover have "hd t = hd (rstrip t)" using t ne by (metis hd_append2)
  ultimately have "\<not> is_space (hd (rstrip t))" by simp
  then have "dropWhile is_space (rstrip t) = rstrip t"
    using ne by (cases "rstrip t") simp_all
  then show ?thesis by (simp add: t_def lstrip_def)
qed

lemma strip_idem: "strip (strip s) = strip s"
  by (simp add: strip_def lstrip_rstrip_lstrip rstrip_idem)

lemma set_strip: "set (strip s) \<subseteq> set s"
proof -
  have "set (rstrip t) \<subseteq> set t" for t
    using set_dropWhileD [of _ is_space "rev t"] by (auto simp: rstrip_def)
  moreover have "set (lstrip s) \<subseteq> set s"
    using set_dropWhileD [of _ is_space s] by (auto simp: lstrip_def)
  ultimately show ?thesis unfolding strip_def by blast
qed

lemma alias_targets:
  "map_of REGION_ALIASES p = Some c \<Longrightarrow> c \<in> {''USA'', ''EU'', ''UK'', ''CA''}"
  by (auto simp: REGION_ALIASES_def split: if_splits)

lemma region_key_canonical:
  "region_key ''USA'' = ''USA''" "region_key ''EU'' = ''EU''" "region_key ''UK'' = ''UK''"
  "region_key ''CA'' = ''CA''" "region_key ''OTHER'' = ''OTHER''"
  by code_simp+

lemma region_key_of_flag_key:
  assumes "k \<in> fst ` set REGION_FLAGS"
  shows "region_key k = k"
proof -
  from assms have "k \<in> {''USA'', ''EU'', ''UK'', ''CA'', ''OTHER''}"
    by (simp add: REGION_FLAGS_def)
  then show ?thesis using region_key_canonical by auto
qed

lemma region_key_twice:
  assumes "strip (spec_normalize s) = spec_normalize s"
  shows "region_key (region_key s) = region_key s"
proof -
  define p where "p = spec_normalize s"
  have key: "region_key s = table_get REGION_ALIASES p p"
    by (simp add: region_key_def p_def spec_normalize_def Let_def)
  show ?thesis
  proof (cases "map_of REGION_ALIASES p")
    case (Some c)
    then have "region_key s = c" by (simp add: key table_get_def)
    moreover from Some have "c \<in> {''USA'', ''EU'', ''UK'', ''CA''}" by (rule alias_targets)
    then have "region_key c = c" using region_key_canonical by auto
    ultimately show ?thesis by simp
  next
    case None
    then have ks: "region_key s = p" by (simp add: key table_get_def)
    have "strip p = p" using assms by (simp add: p_def)
    moreover have "upper p = p"
      by (simp add: p_def spec_normalize_def remove_char_upper [symmetric])
    moreover have "remove_char CHR ''.'' p = p" by (simp add: p_def spec_normalize_def)
    ultimately have "region_key p = table_get REGION_ALIASES p p"
      by (simp add: region_key_def Let_def)
    then show ?thesis using None by (simp add: ks table_get_def)
  qed
qed

lemma upper_keeps_absent_dot: "CHR ''.'' \<notin> set t \<Longrightarrow> CHR ''.'' \<notin> set (upper t)"
  by (induction t) (simp_all add: upper_def)

lemma trimmed_without_period:
  assumes "CHR ''.'' \<notin> set s"
  shows "strip (spec_normalize s) = spec_normalize s"
proof -
  have "set (strip s) \<subseteq> set s" by (rule set_strip)
  with assms have "CHR ''.'' \<notin> set (strip s)" by (rule contra_subsetD [rotated])
  then have "CHR ''.'' \<notin> set (upper (strip s))" by (rule upper_keeps_absent_dot)
  then have "remove_char CHR ''.'' (upper (strip s)) = upper (strip s)"
    by (rule remove_char_absent)
  then show ?thesis by (simp add: spec_normalize_def strip_upper strip_idem)
qed

text \<open>
  C8, as the claim states it, fails: a period is removed after the label is trimmed, so
  \<open>. US\<close> becomes \<open>US\<close> with a space in front, which the alias table does not know; a
  second pass trims the space and resolves \<open>US\<close> to \<open>USA\<close>.
\<close>

theorem region_key_not_idempotent:
  "region_key ''. US'' = '' US'' \<and> region_key (region_key ''. US'') = ''USA''
   \<and> region_key (region_key ''. US'') \<noteq> region_key ''. US''"
  by code_simp

text \<open>
  C8, amended. Normalising a key of the flag table returns that key, and normalising
  twice equals normalising once for every label whose trimmed, upper-cased and
  period-free form neither starts nor ends with white space; every label without a
  period is such a label.
\<close>

theorem region_key_idempotent:
  "(k \<in> fst ` set REGION_FLAGS \<longrightarrow> region_key k = k)
   \<and> (strip (spec_normalize s) = spec_normalize s \<longrightarrow> region_key (region_key s) = region_key s)
   \<and> (CHR ''.'' \<notin> set s \<longrightarrow> region_key (region_key s) = region_key s)"
  using region_key_of_flag_key [of k] region_key_twice [of s] trimmed_without_period [of s]
  by (intro conjI impI) (assumption | erule meta_mp)+

lemma USA_is_flag_key: "''USA'' \<in> fst ` set REGION_FLAGS"
  by (simp add: REGION_FLAGS_def)

lemma spaced_us_trimmed: "strip (spec_normalize '' u.s. '') = spec_normalize '' u.s. ''"
  by code_simp

lemma spaced_us_no_period: "CHR ''.'' \<notin> set '' us ''"
  by simp

theorem region_key_idempotent_witness:
  "region_key ''USA'' = ''USA''
   \<and> region_key (region_key '' u.s. '') = region_key '' u.s. ''
   \<and> region_key (region_key '' us '') = region_key '' us ''"
proof (intro conjI)
  show "region_key ''USA'' = ''USA''"
    using region_key_idempotent [of "''USA''" "[]", THEN conjunct1] USA_is_flag_key
    by (rule mp)
  show "region_key (region_key '' u.s. '') = region_key '' u.s. ''"
    using region_key_idempotent [of "[]" "'' u.s. ''", THEN conjunct2, THEN conjunct1]
      spaced_us_trimmed
    by (rule mp)
  show "region_key (region_key '' us '') = region_key '' us ''"
    using region_key_idempotent [of "[]" "'' us ''", THEN conjunct2, THEN conjunct2]
      spaced_us_no_period
    by (rule mp)
qed

section \<open>The region \<open>AU\<close>\<close>

lemma AU_no_flag: "map_of REGION_FLAGS ''AU'' = None"
  by (simp add: REGION_FLAGS_def)

lemma AU_no_alias: "map_of REGION_ALIASES ''AU'' = None"
  by (simp add: REGION_ALIASES_def)

lemma AU_in_enum: "iter_errors regionEnum (JStr ''AU'') = []"
  by code_simp

lemma Other_in_enum: "iter_errors regionEnum (JStr ''Other'') = []"
  by code_simp

lemma cell_AU: "format_regions_with_flags (JArr [JStr ''AU'']) = Inr (globe @ '' AU'')"
  by code_simp

lemma cell_Other: "format_regions_with_flags (JArr [JStr ''Other'']) = Inr (globe @ '' Other'')"
  by code_simp

lemma symbol_fallback:
  "map_of REGION_FLAGS (region_key r) = None \<Longrightarrow> spec_region_symbol r = globe"
  by (simp add: spec_region_symbol_def region_key_spec)

lemma cell_one_label:
  "format_regions_with_flags (JArr [JStr r]) = Inr (strip (spec_region_symbol r @ '' '' @ r))"
  using format_regions_texts [of "[r]"] by simp

text \<open>
  C10. The value \<open>AU\<close> of the region enumeration has no entry in the flag table and none in
  the alias table, so its cell is the fallback globe followed by \<open>AU\<close>: the symbol of the
  enumeration value \<open>Other\<close> and of every label whose key the flag table does not hold,
  such as \<open>MARS\<close>.
\<close>

theorem AU_rendered_with_fallback:
  "iter_errors regionEnum (JStr ''AU'') = []
   \<and> map_of REGION_FLAGS ''AU'' = None
   \<and> map_of REGION_ALIASES ''AU'' = None
   \<and> format_regions_with_flags (JArr [JStr ''AU'']) = Inr (globe @ '' AU'')
   \<and> format_regions_with_flags (JArr [JStr ''Other'']) = Inr (globe @ '' Other'')
   \<and> format_regions_with_flags (JArr [JStr ''MARS'']) = Inr (globe @ '' MARS'')
   \<and> (map_of REGION_FLAGS (region_key r) = None \<longrightarrow>
        format_regions_with_flags (JArr [JStr r]) = Inr (strip (globe @ '' '' @ r)))"
proof -
  have fallback:
    "map_of REGION_FLAGS (region_key r) = None \<longrightarrow>
       format_regions_with_flags (JArr [JStr r]) = Inr (strip (globe @ '' '' @ r))"
    using symbol_fallback [of r] cell_one_label [of r] by simp
  show ?thesis
    by (intro conjI AU_in_enum AU_no_flag AU_no_alias cell_AU cell_Other cell_MARS fallback)
qed

lemma MARS_unknown: "map_of REGION_FLAGS (region_key ''MARS'') = None"
  by code_simp

lemma MARS_stripped: "strip (globe @ '' '' @ ''MARS'') = globe @ '' MARS''"
  by code_simp

theorem AU_rendered_with_fallback_witness:
  "map_of REGION_FLAGS (region_key ''MARS'') = None
   \<and> format_regions_with_flags (JArr [JStr ''MARS'']) = Inr (globe @ '' MARS'')"
proof -
  have "format_regions_with_flags (JArr [JStr ''MARS'']) = Inr (strip (globe @ '' '' @ ''MARS''))"
    using AU_rendered_with_fallback [of "''MARS''"] MARS_unknown by blast
  then show ?thesis using MARS_unknown by (simp only: MARS_stripped simp_thms)
qed


section \<open>The validator: general facts\<close>

lemma iter_errors_empty:
  "iter_errors (Schema ks) v = [] \<longleftrightarrow>
     (\<forall>k \<in> set ks. keyword_errors (declared_properties ks) k v = [])"
  by simp

lemma here_not_empty [simp]: "here f \<noteq> []"
  by (simp add: here_def)

lemma under_path [simp]: "path (under sg e) = sg # path e"
  by (simp add: under_def)

lemma under_items_empty [simp]:
  "concat (map (\<lambda>i. map (under (Idx i)) (iter_errors sub (xs ! i))) [0 ..< length xs]) = []
   \<longleftrightarrow> (\<forall>x \<in> set xs. iter_errors sub x = [])"
  by (auto simp: all_set_conv_all_nth simp del: iter_errors.simps)

lemma closed_object_valid:
  "iter_errors (Schema [Type TObject, AdditionalProperties False, Required names, Properties ps]) v = []
   \<longleftrightarrow> (\<exists>kvs. v = JObj kvs
         \<and> fst ` set kvs \<subseteq> fst ` set ps
         \<and> (\<forall>n \<in> set names. map_of kvs n \<noteq> None)
         \<and> (\<forall>p \<in> set ps. \<forall>child. map_of kvs (fst p) = Some child \<longrightarrow>
                iter_errors (snd p) child = []))"
proof (cases v)
  case (JObj kvs)
  have extras: "filter (\<lambda>k. k \<notin> set (map fst ps)) (map fst kvs) = []
                \<longleftrightarrow> fst ` set kvs \<subseteq> fst ` set ps"
    by (auto simp: filter_empty_conv)
  have required: "filter (\<lambda>n. map_of kvs n = None) names = []
                  \<longleftrightarrow> (\<forall>n \<in> set names. map_of kvs n \<noteq> None)"
    by (auto simp: filter_empty_conv)
  have props: "(\<forall>p \<in> set ps. (case map_of kvs (fst p) of None \<Rightarrow> []
                 | Some child \<Rightarrow> map (under (Key (fst p))) (iter_errors (snd p) child)) = [])
               \<longleftrightarrow> (\<forall>p \<in> set ps. \<forall>child. map_of kvs (fst p) = Some child \<longrightarrow>
                      iter_errors (snd p) child = [])"
    by (auto split: option.splits simp del: iter_errors.simps)
  show ?thesis
    using extras required props
    by (simp add: iter_errors_empty JObj declared_properties_def Let_def del: iter_errors.simps)
qed (simp_all add: declared_properties_def)

lemma text_pattern_valid:
  "iter_errors (Schema [Type TString, Pattern p]) (JStr s) = [] \<longleftrightarrow> re_search p s"
  by simp

lemma error_paths_resolve:
  "e \<in> set (iter_errors S v) \<Longrightarrow> node_at v (path e) \<noteq> None"
  "e \<in> set (keyword_errors declared k v) \<Longrightarrow> node_at v (path e) \<noteq> None"
proof (induction S v and declared k v arbitrary: e and e rule: iter_errors_keyword_errors.induct)
  case (1 ks v)
  then show ?case by auto
next
  case (5 declared ps v)
  show ?case
  proof (cases v)
    case (JObj kvs)
    with "5.prems" obtain p
      where p: "p \<in> set ps"
        and e: "e \<in> set (case map_of kvs (fst p) of None \<Rightarrow> []
                  | Some child \<Rightarrow> map (under (Key (fst p))) (iter_errors (snd p) child))"
      by (auto simp del: iter_errors.simps)
    show ?thesis
    proof (cases "map_of kvs (fst p)")
      case None
      with e show ?thesis by simp
    next
      case (Some child)
      with e obtain e' where e': "e' \<in> set (iter_errors (snd p) child)"
        and ee: "e = under (Key (fst p)) e'"
        by (auto simp del: iter_errors.simps)
      from "5.IH" [OF JObj p Some e'] have "node_at child (path e') \<noteq> None" .
      then show ?thesis by (simp add: JObj ee Some)
    qed
  qed (use "5.prems" in simp_all)
next
  case (12 declared sub v)
  show ?case
  proof (cases v)
    case (JArr xs)
    with "12.prems" obtain i e' where i: "i < length xs"
      and e': "e' \<in> set (iter_errors sub (xs ! i))" and ee: "e = under (Idx i) e'"
      by (auto simp del: iter_errors.simps)
    from "12.IH" [OF JArr _ e'] i have "node_at (xs ! i) (path e') \<noteq> None" by simp
    then show ?thesis by (simp add: JArr ee i)
  qed (use "12.prems" in simp_all)
qed (auto simp: here_def Let_def split: json.splits if_splits simp del: iter_errors.simps)

lemma sorted_errors_mset: "mset (sorted_errors payload) = mset (iter_errors SCHEMA payload)"
  by (simp add: sorted_errors_def)

lemma sorted_errors_sorted: "sorted (map path (sorted_errors payload))"
  by (simp add: sorted_errors_def)

lemma sorted_errors_stable:
  "filter (\<lambda>e. path e = p) (sorted_errors payload) = filter (\<lambda>e. path e = p) (iter_errors SCHEMA payload)"
  by (simp add: sorted_errors_def sort_key_stable)

lemma sorted_errors_empty: "sorted_errors payload = [] \<longleftrightarrow> iter_errors SCHEMA payload = []"
  using sorted_errors_mset [of payload] by (metis mset_zero_iff)

lemma sorted_errors_set: "set (sorted_errors payload) = set (iter_errors SCHEMA payload)"
  using sorted_errors_mset [of payload] by (metis set_mset_mset)

lemma validate_payload_invalid:
  "iter_errors SCHEMA payload \<noteq> [] \<Longrightarrow>
   validate_payload message payload =
     Inl (ValueError (''Invalid SOP payload:'' @ nl @
            join nl (map (error_line message) (sorted_errors payload))))"
  by (simp add: validate_payload_def sorted_errors_empty Let_def)

lemma validate_payload_valid:
  "iter_errors SCHEMA payload = [] \<Longrightarrow> validate_payload message payload = Inr payload"
  by (simp add: validate_payload_def sorted_errors_empty Let_def)

lemma validate_payload_returns_iff:
  "validate_payload message payload = Inr payload \<longleftrightarrow> iter_errors SCHEMA payload = []"
  by (cases "iter_errors SCHEMA payload = []")
     (simp_all add: validate_payload_valid validate_payload_invalid)

lemma sample_valid: "iter_errors SCHEMA sample = []"
  by code_simp

lemma empty_object_invalid: "iter_errors SCHEMA (JObj []) \<noteq> []"
  by code_simp

lemma empty_object_lines:
  "map (error_line plain_message) (sorted_errors (JObj [])) =
     [''<root>: violation'', ''<root>: violation'', ''<root>: violation'', ''<root>: violation'']"
  by code_simp

section \<open>Violations are raised\<close>

text \<open>
  C1, as the claim states it, fails: for the payload \<open>{}\<close>, which parses and lacks the
  four mandatory sections, \<open>validate_payload\<close> returns nothing and raises \<open>ValueError\<close>.
\<close>

theorem validate_payload_raises_on_empty_object:
  "validate_payload plain_message (JObj []) =
     Inl (ValueError (''Invalid SOP payload:'' @ nl @
            join nl [''<root>: violation'', ''<root>: violation'', ''<root>: violation'',
                     ''<root>: violation'']))"
  using validate_payload_invalid [OF empty_object_invalid, of plain_message]
  by (simp only: empty_object_lines)

text \<open>
  C1, amended. For every parsed payload with at least one violation, \<open>validate_payload\<close>
  raises one \<open>ValueError\<close> whose text is the heading \<open>Invalid SOP payload:\<close> followed by one
  line \<open>path: message\<close> for each violation, in the order of the sorted errors, and \<open>main\<close>
  ends with exit status 1; the payload is returned only when there is no violation.
\<close>

theorem validate_payload_raises:
  "(iter_errors SCHEMA payload \<noteq> [] \<longrightarrow>
      validate_payload message payload =
        Inl (ValueError (''Invalid SOP payload:'' @ nl @
               join nl (map (error_line message) (sorted_errors payload))))
      \<and> main message payload =
        Exit 1 (ValueError (''Invalid SOP payload:'' @ nl @
                  join nl (map (error_line message) (sorted_errors payload))))
      \<and> length (map (error_line message) (sorted_errors payload))
          = length (iter_errors SCHEMA payload))
   \<and> (iter_errors SCHEMA payload = [] \<longrightarrow> validate_payload message payload = Inr payload)"
proof (intro conjI impI)
  assume bad: "iter_errors SCHEMA payload \<noteq> []"
  show raised: "validate_payload message payload =
        Inl (ValueError (''Invalid SOP payload:'' @ nl @
               join nl (map (error_line message) (sorted_errors payload))))"
    using bad by (rule validate_payload_invalid)
  show "main message payload =
        Exit 1 (ValueError (''Invalid SOP payload:'' @ nl @
                  join nl (map (error_line message) (sorted_errors payload))))"
    by (simp add: main_def raised)
  show "length (map (error_line message) (sorted_errors payload))
          = length (iter_errors SCHEMA payload)"
    by (simp add: sorted_errors_def)
next
  assume "iter_errors SCHEMA payload = []"
  then show "validate_payload message payload = Inr payload"
    by (rule validate_payload_valid)
qed

theorem validate_payload_raises_witness:
  "main plain_message (JObj []) =
     Exit 1 (ValueError (''Invalid SOP payload:'' @ nl @
               join nl [''<root>: violation'', ''<root>: violation'', ''<root>: violation'',
                        ''<root>: violation'']))
   \<and> validate_payload plain_message sample = Inr sample"
proof
  have "main plain_message (JObj []) =
        Exit 1 (ValueError (''Invalid SOP payload:'' @ nl @
                  join nl (map (error_line plain_message) (sorted_errors (JObj [])))))"
    using validate_payload_raises [of "JObj []" plain_message] empty_object_invalid by blast
  then show "main plain_message (JObj []) =
     Exit 1 (ValueError (''Invalid SOP payload:'' @ nl @
               join nl [''<root>: violation'', ''<root>: violation'', ''<root>: violation'',
                        ''<root>: violation'']))"
    by (simp only: empty_object_lines)
  show "validate_payload plain_message sample = Inr sample"
    using validate_payload_raises [of sample plain_message] sample_valid by blast
qed


section \<open>The report is complete\<close>

lemma keyword_errors_reported:
  "k \<in> set ks \<Longrightarrow> e \<in> set (keyword_errors (declared_properties ks) k v) \<Longrightarrow>
   e \<in> set (iter_errors (Schema ks) v)"
  by auto

lemma under_VError [simp]: "under sg (VError p f) = VError (sg # p) f"
  by (simp add: under_def)

lemma violation_reported:
  "violation S v p f \<Longrightarrow> VError p f \<in> set (iter_errors S v)"
proof (induction rule: violation.induct)
  case (no_variant sub ks xs)
  then have "\<forall>x \<in> set xs. iter_errors sub x \<noteq> []" by fastforce
  then have "filter (\<lambda>x. iter_errors sub x = []) xs = []" by (simp add: filter_empty_conv)
  then have "VError [] NoItemMatches \<in> set (keyword_errors (declared_properties ks) (Contains sub) (JArr xs))"
    by (simp add: here_def del: iter_errors.simps)
  with no_variant(1) show ?case by (rule keyword_errors_reported)
next
  case (in_property ps ks n sub kvs child p f)
  then have "VError (Key n # p) f \<in> set (keyword_errors (declared_properties ks) (Properties ps) (JObj kvs))"
    by (force simp del: iter_errors.simps)
  with in_property(1) show ?case by (rule keyword_errors_reported)
next
  case (in_item sub ks i xs p f)
  then have "VError (Idx i # p) f \<in> set (keyword_errors (declared_properties ks) (Items sub) (JArr xs))"
    by (force simp del: iter_errors.simps)
  with in_item(1) show ?case by (rule keyword_errors_reported)
next
  case (in_all_of subs ks sub v p f)
  then have "VError p f \<in> set (keyword_errors (declared_properties ks) (AllOf subs) v)"
    by (force simp del: iter_errors.simps)
  with in_all_of(1) show ?case by (rule keyword_errors_reported)
next
  case (in_ref target ks v p f)
  then have "VError p f \<in> set (keyword_errors (declared_properties ks) (Ref target) v)"
    by (simp del: iter_errors.simps)
  with in_ref(1) show ?case by (rule keyword_errors_reported)
qed (rule keyword_errors_reported, assumption, simp add: here_def image_iff Let_def)+


lemma nonempty_has_error:
  assumes "es \<noteq> []"
  shows "\<exists>p f. VError p f \<in> set es"
proof (cases es)
  case Nil
  with assms show ?thesis by simp
next
  case (Cons e rest)
  obtain p f where "e = VError p f" by (cases e)
  with Cons have "VError p f \<in> set es" by simp
  then show ?thesis by blast
qed

lemma reported_violation:
  "VError p f \<in> set (iter_errors S v) \<Longrightarrow> violation S v p f"
  "VError p f \<in> set (keyword_errors declared k v) \<Longrightarrow> k \<in> set ks \<Longrightarrow>
   declared = declared_properties ks \<Longrightarrow> violation (Schema ks) v p f"
proof (induction S v and declared k v arbitrary: p f and p f ks
       rule: iter_errors_keyword_errors.induct)
  case (1 ks v)
  from "1.prems" obtain k where k: "k \<in> set ks"
    and e: "VError p f \<in> set (keyword_errors (declared_properties ks) k v)"
    by auto
  from "1.IH" [OF k e k refl] show ?case .
next
  case (3 declared allowed v)
  then show ?case
    by (cases v; cases allowed) (auto simp: here_def Let_def intro: violation.unknown_field split: if_splits)
next
  case (4 declared names v)
  then show ?case by (cases v) (auto intro: violation.missing_field)
next
  case (5 declared ps v)
  show ?case
  proof (cases v)
    case (JObj kvs)
    with "5.prems"(1) obtain pr
      where pr: "pr \<in> set ps"
        and e: "VError p f \<in> set (case map_of kvs (fst pr) of None \<Rightarrow> []
                  | Some child \<Rightarrow> map (under (Key (fst pr))) (iter_errors (snd pr) child))"
      by (auto simp del: iter_errors.simps)
    show ?thesis
    proof (cases "map_of kvs (fst pr)")
      case None
      with e show ?thesis by simp
    next
      case (Some child)
      with e obtain e' where e': "e' \<in> set (iter_errors (snd pr) child)"
        and ee: "VError p f = under (Key (fst pr)) e'"
        by (auto simp del: iter_errors.simps)
      obtain q g where e'_def: "e' = VError q g" by (cases e')
      from ee have p: "p = Key (fst pr) # q" and g: "g = f" by (simp_all add: e'_def)
      from "5.IH" [OF JObj pr Some] e' have viol: "violation (snd pr) child q f"
        by (simp add: e'_def g)
      have mem: "(fst pr, snd pr) \<in> set ps" using pr by simp
      show ?thesis
        unfolding JObj p by (rule violation.in_property [OF "5.prems"(2) mem Some viol])
    qed
  qed (use "5.prems" in simp_all)
next
  case (10 declared n v)
  then show ?case by (cases v) (auto simp: here_def intro: violation.few_items split: if_splits)
next
  case (11 declared wanted v)
  then show ?case
    by (cases v; cases wanted) (auto simp: here_def intro: violation.duplicate_item split: if_splits)
next
  case (12 declared sub v)
  show ?case
  proof (cases v)
    case (JArr xs)
    with "12.prems"(1) obtain i e' where i: "i < length xs"
      and e': "e' \<in> set (iter_errors sub (xs ! i))" and ee: "VError p f = under (Idx i) e'"
      by (auto simp del: iter_errors.simps)
    obtain q g where e'_def: "e' = VError q g" by (cases e')
    from ee have p: "p = Idx i # q" and g: "g = f" by (simp_all add: e'_def)
    from "12.IH" [OF JArr, of i q f] i e' have "violation sub (xs ! i) q f"
      by (simp add: e'_def g)
    then show ?thesis
      unfolding JArr p by (rule violation.in_item [OF "12.prems"(2) i])
  qed (use "12.prems" in simp_all)
next
  case (13 declared sub v)
  show ?case
  proof (cases v)
    case (JArr xs)
    with "13.prems"(1) have none: "\<forall>x \<in> set xs. iter_errors sub x \<noteq> []" and pf: "p = []" "f = NoItemMatches"
      by (auto simp: here_def filter_empty_conv split: if_splits simp del: iter_errors.simps)
    have "\<forall>x \<in> set xs. \<exists>q g. violation sub x q g"
    proof
      fix x assume x: "x \<in> set xs"
      with none have "iter_errors sub x \<noteq> []" by blast
      then obtain q g where "VError q g \<in> set (iter_errors sub x)"
        using nonempty_has_error by blast
      with "13.IH" [OF JArr x] show "\<exists>q g. violation sub x q g" by blast
    qed
    then show ?thesis
      unfolding JArr pf by (rule violation.no_variant [OF "13.prems"(2)])
  qed (use "13.prems" in simp_all)
next
  case (14 declared subs v)
  from "14.prems"(1) obtain sub where sub: "sub \<in> set subs"
    and e: "VError p f \<in> set (iter_errors sub v)"
    by (auto simp del: iter_errors.simps)
  from "14.IH" [OF sub e] have "violation sub v p f" .
  then show ?case by (rule violation.in_all_of [OF "14.prems"(2) sub])
next
  case (17 declared target v)
  from "17.prems"(1) have "VError p f \<in> set (iter_errors target v)"
    by (simp del: iter_errors.simps)
  from "17.IH" [OF this] have "violation target v p f" .
  then show ?case by (rule violation.in_ref [OF "17.prems"(2)])
qed (auto simp: here_def image_iff intro: violation.intros split: if_splits json.splits)

lemma violation_iff_reported: "violation S v p f \<longleftrightarrow> VError p f \<in> set (iter_errors S v)"
  using violation_reported reported_violation(1) by blast

lemma broken_errors:
  "sorted_errors broken =
     [VError [] (Unexpected [''zz'']), VError [] (MissingProperty ''step1''),
      VError [] (MissingProperty ''step3''),
      VError [Key ''step2'', Key ''files'', Idx 0] (NotOfType TObject),
      VError [Key ''step2'', Key ''files'', Idx 1] (MissingProperty ''type''),
      VError [Key ''step2'', Key ''files'', Idx 1] (MissingProperty ''filename''),
      VError [Key ''step2'', Key ''files'', Idx 1] (MissingProperty ''status_code''),
      VError [Key ''step5''] (NotOfType TObject),
      VError [Key ''version''] (NotOfType TString)]"
  by code_simp

lemma broken_unsorted:
  "iter_errors SCHEMA broken =
     [VError [] (Unexpected [''zz'']), VError [] (MissingProperty ''step1''),
      VError [] (MissingProperty ''step3''),
      VError [Key ''version''] (NotOfType TString),
      VError [Key ''step2'', Key ''files'', Idx 0] (NotOfType TObject),
      VError [Key ''step2'', Key ''files'', Idx 1] (MissingProperty ''type''),
      VError [Key ''step2'', Key ''files'', Idx 1] (MissingProperty ''filename''),
      VError [Key ''step2'', Key ''files'', Idx 1] (MissingProperty ''status_code''),
      VError [Key ''step5''] (NotOfType TObject)]"
  by code_simp

text \<open>
  C3. For every payload, the errors that \<open>validate_payload\<close> reports are exactly the
  violations of the schema: each violation is reported at its path, whatever other
  violations there are, and each reported error is a violation; the report holds the
  errors of the validator, none dropped and none added, sorted by path (item by item
  along the path), errors of one path in the order they were found; each path addresses a
  node of the payload; and the report is empty, and the payload returned, exactly when
  nothing is violated.
\<close>

theorem validate_payload_complete_report:
  "(VError p f \<in> set (sorted_errors payload) \<longleftrightarrow> violation SCHEMA payload p f)
   \<and> mset (sorted_errors payload) = mset (iter_errors SCHEMA payload)
   \<and> sorted (map path (sorted_errors payload))
   \<and> filter (\<lambda>e. path e = p) (sorted_errors payload)
       = filter (\<lambda>e. path e = p) (iter_errors SCHEMA payload)
   \<and> (\<forall>e \<in> set (sorted_errors payload). node_at payload (path e) \<noteq> None)
   \<and> (sorted_errors payload = [] \<longleftrightarrow> \<not> (\<exists>q g. violation SCHEMA payload q g))
   \<and> (validate_payload message payload = Inr payload \<longleftrightarrow> sorted_errors payload = [])"
proof (intro conjI)
  show "VError p f \<in> set (sorted_errors payload) \<longleftrightarrow> violation SCHEMA payload p f"
    by (simp only: sorted_errors_set violation_iff_reported)
  show "mset (sorted_errors payload) = mset (iter_errors SCHEMA payload)"
    by (rule sorted_errors_mset)
  show "sorted (map path (sorted_errors payload))"
    by (rule sorted_errors_sorted)
  show "filter (\<lambda>e. path e = p) (sorted_errors payload)
       = filter (\<lambda>e. path e = p) (iter_errors SCHEMA payload)"
    by (rule sorted_errors_stable)
  show "\<forall>e \<in> set (sorted_errors payload). node_at payload (path e) \<noteq> None"
    using error_paths_resolve(1) [of _ SCHEMA payload] by (simp only: sorted_errors_set) blast
  show "sorted_errors payload = [] \<longleftrightarrow> \<not> (\<exists>q g. violation SCHEMA payload q g)"
  proof
    assume "sorted_errors payload = []"
    then have "set (iter_errors SCHEMA payload) = {}" by (simp add: sorted_errors_empty)
    then show "\<not> (\<exists>q g. violation SCHEMA payload q g)"
      by (simp add: violation_iff_reported)
  next
    assume none: "\<not> (\<exists>q g. violation SCHEMA payload q g)"
    show "sorted_errors payload = []"
    proof (rule ccontr)
      assume "sorted_errors payload \<noteq> []"
      then have "iter_errors SCHEMA payload \<noteq> []" by (simp add: sorted_errors_empty)
      then obtain q g where "VError q g \<in> set (iter_errors SCHEMA payload)"
        using nonempty_has_error by blast
      then have "violation SCHEMA payload q g" by (simp add: violation_iff_reported)
      with none show False by blast
    qed
  qed
  show "validate_payload message payload = Inr payload \<longleftrightarrow> sorted_errors payload = []"
    by (simp only: validate_payload_returns_iff sorted_errors_empty)
qed

lemma broken_step5_reported:
  "VError [Key ''step5''] (NotOfType TObject) \<in> set (sorted_errors broken)"
  by (simp add: broken_errors)

lemma broken_paths:
  "map path (sorted_errors broken) =
     [[], [], [], [Key ''step2'', Key ''files'', Idx 0], [Key ''step2'', Key ''files'', Idx 1],
      [Key ''step2'', Key ''files'', Idx 1], [Key ''step2'', Key ''files'', Idx 1],
      [Key ''step5''], [Key ''version'']]"
  by (simp add: broken_errors)

theorem validate_payload_complete_report_witness:
  "violation SCHEMA broken [Key ''step5''] (NotOfType TObject)
   \<and> node_at broken [Key ''step5''] \<noteq> None
   \<and> length (sorted_errors broken) = 9
   \<and> sorted [[], [], [], [Key ''step2'', Key ''files'', Idx 0],
              [Key ''step2'', Key ''files'', Idx 1], [Key ''step2'', Key ''files'', Idx 1],
              [Key ''step2'', Key ''files'', Idx 1], [Key ''step5''], [Key ''version'']]
   \<and> validate_payload plain_message sample = Inr sample"
proof (intro conjI)
  note report = validate_payload_complete_report
    [of "[Key ''step5'']" "NotOfType TObject" broken plain_message]
  show "violation SCHEMA broken [Key ''step5''] (NotOfType TObject)"
    using report broken_step5_reported by blast
  have "node_at broken (path (VError [Key ''step5''] (NotOfType TObject))) \<noteq> None"
    using report broken_step5_reported by blast
  then show "node_at broken [Key ''step5''] \<noteq> None" by simp
  show "length (sorted_errors broken) = 9" by (simp add: broken_errors)
  show "sorted [[], [], [], [Key ''step2'', Key ''files'', Idx 0],
              [Key ''step2'', Key ''files'', Idx 1], [Key ''step2'', Key ''files'', Idx 1],
              [Key ''step2'', Key ''files'', Idx 1], [Key ''step5''], [Key ''version'']]"
    using report by (simp only: broken_paths)
  have "sorted_errors sample = []" by (simp add: sorted_errors_empty sample_valid)
  with validate_payload_complete_report [of "[]" NotUnique sample plain_message]
  show "validate_payload plain_message sample = Inr sample" by blast
qed

section \<open>The version member\<close>

lemma map_of_without_other: "k \<noteq> x \<Longrightarrow> map_of (without x kvs) k = map_of kvs k"
  by (induction kvs) (auto simp: without_def)

lemma map_of_without_same: "map_of (without x kvs) x = None"
  by (induction kvs) (auto simp: without_def)

lemma keys_without: "fst ` set (without x kvs) = fst ` set kvs - {x}"
  by (auto simp: without_def)

lemma version_rule:
  assumes "map_of kvs ''version'' = Some (JStr s)"
  shows "iter_errors SCHEMA (JObj kvs) = [] \<longleftrightarrow>
           re_search version_pattern s \<and> iter_errors SCHEMA (JObj (without ''version'' kvs)) = []"
  using assms unfolding SCHEMA_def closed_object_valid
  by (auto simp: keys_without map_of_without_other map_of_without_same text_pattern_valid
        simp del: iter_errors.simps)

lemma draft_raises:
  "validate_payload plain_message (versioned ''draft'') =
     Inl (ValueError (''Invalid SOP payload:'' @ nl @ ''version: violation''))"
  by code_simp

lemma one_zero_rejected:
  "sorted_errors (versioned ''1.0'') = [VError [Key ''version''] (NoMatch version_pattern)]"
  by code_simp

text \<open>
  C4, as the claim states it, fails: the schema gives \<open>version\<close> a pattern. The sample
  payload is valid; with \<open>"version": "draft"\<close> in addition it is rejected, and so it is
  with \<open>"version": "1.0"\<close>.
\<close>

theorem version_draft_rejected:
  "iter_errors SCHEMA sample = []
   \<and> validate_payload plain_message (versioned ''draft'') =
       Inl (ValueError (''Invalid SOP payload:'' @ nl @ ''version: violation''))
   \<and> sorted_errors (versioned ''1.0'') = [VError [Key ''version''] (NoMatch version_pattern)]"
  by (intro conjI sample_valid draft_raises one_zero_rejected)

text \<open>
  C4, amended. The member \<open>version\<close> is optional, and a payload that supplies a text for
  it passes validation exactly when the payload without the member passes and the text
  matches \<open>^\d+\.\d+\.\d+$\<close>: three groups of digits separated by periods, as in
  \<open>1.0.0\<close>.
\<close>

theorem version_must_match_pattern:
  "map_of kvs ''version'' = Some (JStr s) \<longrightarrow>
     (iter_errors SCHEMA (JObj kvs) = [] \<longleftrightarrow>
        re_search version_pattern s \<and> iter_errors SCHEMA (JObj (without ''version'' kvs)) = [])"
  using version_rule [of kvs s] by blast

lemma versioned_without:
  "without ''version'' ((''version'', JStr v) # sample_members two_files) = sample_members two_files"
  by (simp add: without_def sample_members_def)

lemma semver_matches: "re_search version_pattern ''1.0.0''"
  by code_simp

lemma sample_members_valid: "iter_errors SCHEMA (JObj (sample_members two_files)) = []"
  using sample_valid by (simp only: sample_def)

theorem version_must_match_pattern_witness:
  "map_of ((''version'', JStr ''1.0.0'') # sample_members two_files) ''version'' = Some (JStr ''1.0.0'')
   \<and> re_search version_pattern ''1.0.0''
   \<and> iter_errors SCHEMA (JObj (sample_members two_files)) = []
   \<and> iter_errors SCHEMA (versioned ''1.0.0'') = []"
proof (intro conjI)
  show look: "map_of ((''version'', JStr ''1.0.0'') # sample_members two_files) ''version''
              = Some (JStr ''1.0.0'')"
    by simp
  show "re_search version_pattern ''1.0.0''" by (rule semver_matches)
  show "iter_errors SCHEMA (JObj (sample_members two_files)) = []" by (rule sample_members_valid)
  have "iter_errors SCHEMA (JObj ((''version'', JStr ''1.0.0'') # sample_members two_files)) = []"
    using version_must_match_pattern
      [of "(''version'', JStr ''1.0.0'') # sample_members two_files" "''1.0.0''"]
      look semver_matches sample_members_valid
    by (simp only: versioned_without simp_thms)
  then show "iter_errors SCHEMA (versioned ''1.0.0'') = []" by (simp only: versioned_def)
qed

section \<open>The files of \<open>step2\<close>\<close>

lemma contains_on_object: "iter_errors (contains_type t) (JObj kvs) = []"
  by (simp add: contains_type_def declared_properties_def)

lemma two_artwork_accepted: "sorted_errors (JObj (sample_members two_artwork)) = []"
  by code_simp

lemma two_artwork_returned:
  "validate_payload plain_message (JObj (sample_members two_artwork))
   = Inr (JObj (sample_members two_artwork))"
  by code_simp

lemma two_artwork_no_copy:
  "iter_errors (contains_type ''Copy Document'') (JArr two_artwork) = [VError [] NoItemMatches]"
  by code_simp

lemma one_file_rejected:
  "sorted_errors (JObj (sample_members one_file))
   = [VError [Key ''step2'', Key ''files''] (TooFewItems 2)]"
  by code_simp

text \<open>
  C5. What the code does: a list of one file is rejected for its length and the sample
  with one file of each type passes, but a list of two files that are both \<open>Artwork\<close> passes
  too. The two \<open>contains\<close> clauses are evaluated on the \<open>step2\<close> object, where \<open>contains\<close>
  yields nothing for any object; on the list of files itself the first clause would fail.
\<close>

theorem step2_variant_rule_not_applied:
  "iter_errors (contains_type t) (JObj kvs) = []
   \<and> sorted_errors (JObj (sample_members two_artwork)) = []
   \<and> validate_payload plain_message (JObj (sample_members two_artwork))
       = Inr (JObj (sample_members two_artwork))
   \<and> iter_errors (contains_type ''Copy Document'') (JArr two_artwork) = [VError [] NoItemMatches]
   \<and> sorted_errors (JObj (sample_members one_file))
       = [VError [Key ''step2'', Key ''files''] (TooFewItems 2)]
   \<and> iter_errors SCHEMA sample = []"
  by (intro conjI contains_on_object two_artwork_accepted two_artwork_returned
        two_artwork_no_copy one_file_rejected sample_valid)

end
